theory Spec2Isabelle
  imports Complex_Main "HOL-Library.Word" "HOL-Library.Monad_Syntax"
begin

section \<open>Numbers\<close>

text \<open>
  The force field computes on \<^verbatim>\<open>float64\<close>. The properties below are stated in exact
  real arithmetic, so a \<^verbatim>\<open>float64\<close> is a \<^typ>\<open>real\<close> and rounding is left out.
  One thing is kept: a quotient by zero. HOL's \<open>a / 0\<close> is \<open>0\<close>; in exact arithmetic
  the quotient does not exist, and Go computes an infinity or, for \<open>0 / 0\<close>, NaN, which
  every later sum, difference and product hands on. So every \<^verbatim>\<open>/\<close> of the source whose
  divisor is computed is \<open>fdiv\<close>, and \<open>None\<close> is "no real number". The same holds for
  \<^verbatim>\<open>math.Acos\<close>, which is NaN outside \<open>[-1, 1]\<close> where HOL's \<open>arccos\<close> is unspecified.
  The square roots of the source are taken of sums of squares only.
\<close>

definition fdiv :: "real \<Rightarrow> real \<Rightarrow> real option" where
  "fdiv a b = (if b = 0 then None else Some (a / b))"

text \<open>
  \<^verbatim>\<open>math.Acos\<close> and \<^verbatim>\<open>math.Atan2(y, x)\<close> of the Go standard library, on the reals (there
  is no signed zero here). The latter is the angle of the point \<open>(x, y)\<close> in \<open>(-\<pi>, \<pi>]\<close>,
  and \<open>0\<close> at the origin.
\<close>

definition Acos :: "real \<Rightarrow> real option" where
  "Acos v = (if - 1 \<le> v \<and> v \<le> 1 then Some (arccos v) else None)"

definition Atan2 :: "real \<Rightarrow> real \<Rightarrow> real" where
  "Atan2 yv xv =
     (if 0 < xv then arctan (yv / xv)
      else if xv < 0 \<and> 0 \<le> yv then arctan (yv / xv) + pi
      else if xv < 0 then arctan (yv / xv) - pi
      else if 0 < yv then pi / 2
      else if yv < 0 then - (pi / 2)
      else 0)"

section \<open>The structure model\<close>

text \<open>
  Modelled from the spec: the declarations of the structs \<^verbatim>\<open>TriTuple\<close> and \<^verbatim>\<open>Atom\<close> are
  missing from the sources. The spec's data model gives a vector three real components
  and an atom a sequence index, position, velocity, accumulated force, acceleration,
  mass, element label and charge; the field names and types are the ones the routines
  and the readers use (\<^verbatim>\<open>ReadOneAtom\<close>, \<^verbatim>\<open>parsePDBLine\<close>: the index comes from
  \<^verbatim>\<open>strconv.Atoi\<close>, an \<^verbatim>\<open>int\<close>). Go's \<^verbatim>\<open>int\<close> is a 64-bit two's complement integer
  whose arithmetic wraps around.
\<close>

record TriTuple =
  x :: real
  y :: real
  z :: real

record Atom =
  index :: "64 word"
  position :: TriTuple
  velocity :: TriTuple
  force :: TriTuple
  accelerated :: TriTuple
  mass :: real
  element :: string
  charge :: real

section \<open>Vector algebra (functions.go)\<close>

definition Distance :: "TriTuple \<Rightarrow> TriTuple \<Rightarrow> real" where
  "Distance p1 p2 =
     (let deltaX = x p1 - x p2;
          deltaY = y p1 - y p2;
          deltaZ = z p1 - z p2
      in sqrt (deltaX * deltaX + deltaY * deltaY + deltaZ * deltaZ))"

definition BuildNormalVector :: "TriTuple \<Rightarrow> TriTuple \<Rightarrow> TriTuple" where
  "BuildNormalVector vector1 vector2 =
     \<lparr>x = y vector1 * z vector2 - z vector1 * y vector2,
      y = z vector1 * x vector2 - x vector1 * z vector2,
      z = x vector1 * y vector2 - y vector1 * x vector2\<rparr>"

definition dot :: "TriTuple \<Rightarrow> TriTuple \<Rightarrow> real" where
  "dot vector1 vector2 =
     x vector1 * x vector2 + y vector1 * y vector2 + z vector1 * z vector2"

definition magnitude :: "TriTuple \<Rightarrow> real" where
  "magnitude v = sqrt (x v * x v + y v * y v + z v * z v)"

definition Cross :: "TriTuple \<Rightarrow> TriTuple \<Rightarrow> TriTuple" where
  "Cross v1 v2 = \<lparr>x = x v1 * x v2, y = y v1 * y v2, z = z v1 * z v2\<rparr>"

definition CopyTriTuple :: "TriTuple \<Rightarrow> TriTuple" where
  "CopyTriTuple tri = \<lparr>x = x tri, y = y tri, z = z tri\<rparr>"

text \<open>
  The routines of the bonded engine take \<^verbatim>\<open>*Atom\<close> and only read the atoms, so the
  model hands them the atoms themselves.
\<close>

definition CalculateVector :: "Atom \<Rightarrow> Atom \<Rightarrow> TriTuple" where
  "CalculateVector atom1 atom2 =
     \<lparr>x = x (position atom2) - x (position atom1),
      y = y (position atom2) - y (position atom1),
      z = z (position atom2) - z (position atom1)\<rparr>"

definition CalculateAngle :: "Atom \<Rightarrow> Atom \<Rightarrow> Atom \<Rightarrow> real option" where
  "CalculateAngle atom1 atom2 atom3 =
     (let vector1 = CalculateVector atom2 atom1;
          vector2 = CalculateVector atom3 atom1;
          upperValue = dot vector1 vector2;
          lowerValue = Distance (position atom1) (position atom2)
                       * Distance (position atom2) (position atom3)
      in do {
        v \<leftarrow> fdiv upperValue lowerValue;
        Acos v
      })"

definition CalculateDihedralAngle :: "Atom \<Rightarrow> Atom \<Rightarrow> Atom \<Rightarrow> Atom \<Rightarrow> real option" where
  "CalculateDihedralAngle atom1 atom2 atom3 atom4 =
     (let vector1 = CalculateVector atom2 atom1;
          vector2 = CalculateVector atom3 atom2;
          vector3 = CalculateVector atom4 atom3;
          plane1 = BuildNormalVector vector1 vector2;
          plane2 = BuildNormalVector vector2 vector3;
          plane3 = BuildNormalVector plane1 plane2;
          xv = dot plane1 plane2
      in do {
        yv \<leftarrow> fdiv (dot plane3 vector2) (magnitude vector2);
        let angle = Atan2 yv xv;
        Some (angle * (180 / pi))
      })"

section \<open>Bonded forces (functions.go)\<close>

definition DerivateAnglePositionX :: "Atom \<Rightarrow> Atom \<Rightarrow> Atom \<Rightarrow> real \<Rightarrow> real option" where
  "DerivateAnglePositionX atom1 atom2 atom3 theta = do {
     a \<leftarrow> fdiv 1 (Distance (position atom1) (position atom2));
     b \<leftarrow> fdiv (x (position atom3) - x (position atom2))
               (Distance (position atom3) (position atom2));
     c \<leftarrow> fdiv (x (position atom1) - x (position atom2))
               (Distance (position atom1) (position atom2));
     Some (a * (b - c * cos theta))
   }"

definition DerivateAnglePositionY :: "Atom \<Rightarrow> Atom \<Rightarrow> Atom \<Rightarrow> real \<Rightarrow> real option" where
  "DerivateAnglePositionY atom1 atom2 atom3 theta = do {
     a \<leftarrow> fdiv 1 (Distance (position atom1) (position atom2));
     b \<leftarrow> fdiv (y (position atom3) - y (position atom2))
               (Distance (position atom3) (position atom2));
     c \<leftarrow> fdiv (y (position atom1) - y (position atom2))
               (Distance (position atom1) (position atom2));
     Some (a * (b - c * cos theta))
   }"

definition DerivateAnglePositionZ :: "Atom \<Rightarrow> Atom \<Rightarrow> Atom \<Rightarrow> real \<Rightarrow> real option" where
  "DerivateAnglePositionZ atom1 atom2 atom3 theta = do {
     a \<leftarrow> fdiv 1 (Distance (position atom1) (position atom2));
     b \<leftarrow> fdiv (z (position atom3) - z (position atom2))
               (Distance (position atom3) (position atom2));
     c \<leftarrow> fdiv (z (position atom1) - z (position atom2))
               (Distance (position atom1) (position atom2));
     Some (a * (b - c * cos theta))
   }"

definition CalculateAngleForce ::
  "real \<Rightarrow> real \<Rightarrow> real \<Rightarrow> Atom \<Rightarrow> Atom \<Rightarrow> Atom \<Rightarrow> (TriTuple \<times> TriTuple \<times> TriTuple) option" where
  "CalculateAngleForce k theta theta_0 atom1 atom2 atom3 = do {
     let der_U_thate = k * (theta - theta_0);
     r \<leftarrow> fdiv 1 (sin theta);
     let der_that_cos = (- 1) * r;
     der_theta_x_12 \<leftarrow> DerivateAnglePositionX atom1 atom2 atom3 theta;
     der_theta_x_32 \<leftarrow> DerivateAnglePositionX atom3 atom2 atom2 theta;
     der_theta_y_12 \<leftarrow> DerivateAnglePositionY atom1 atom2 atom3 theta;
     der_theta_y_32 \<leftarrow> DerivateAnglePositionY atom3 atom2 atom2 theta;
     der_theta_z_12 \<leftarrow> DerivateAnglePositionZ atom1 atom2 atom3 theta;
     der_theta_z_32 \<leftarrow> DerivateAnglePositionZ atom3 atom2 atom2 theta;
     let force_i = \<lparr>x = der_U_thate * der_that_cos * der_theta_x_12,
                    y = der_U_thate * der_that_cos * der_theta_y_12,
                    z = der_U_thate * der_that_cos * der_theta_z_12\<rparr>;
     let force_k = \<lparr>x = der_U_thate * der_that_cos * der_theta_x_32,
                    y = der_U_thate * der_that_cos * der_theta_y_32,
                    z = der_U_thate * der_that_cos * der_theta_z_32\<rparr>;
     let force_j = \<lparr>x = - x force_i - x force_k,
                    y = - y force_i - y force_k,
                    z = - z force_i - z force_k\<rparr>;
     Some (force_i, force_j, force_k)
   }"

definition CalculateDerivate :: "TriTuple \<Rightarrow> TriTuple \<Rightarrow> real \<Rightarrow> (real \<times> real \<times> real) option" where
  "CalculateDerivate v1 v2 phi = do {
     i1 \<leftarrow> fdiv 1 (magnitude v1);
     ax \<leftarrow> fdiv (x v2) (magnitude v2);
     bx \<leftarrow> fdiv (x v1) (magnitude v1);
     i2 \<leftarrow> fdiv 1 (magnitude v1);
     ay \<leftarrow> fdiv (y v2) (magnitude v2);
     by \<leftarrow> fdiv (y v1) (magnitude v1);
     i3 \<leftarrow> fdiv 1 (magnitude v1);
     az \<leftarrow> fdiv (z v2) (magnitude v2);
     bz \<leftarrow> fdiv (z v1) (magnitude v1);
     Some (i1 * (ax - bx * cos phi), i2 * (ay - by * cos phi), i3 * (az - bz * cos phi))
   }"

definition CalculateProperDihedralsForce ::
  "real \<Rightarrow> real \<Rightarrow> real \<Rightarrow> real \<Rightarrow> Atom \<Rightarrow> Atom \<Rightarrow> Atom \<Rightarrow> Atom
     \<Rightarrow> (TriTuple \<times> TriTuple \<times> TriTuple \<times> TriTuple) option" where
  "CalculateProperDihedralsForce kd phi pn phase atom1 atom2 atom3 atom4 = do {
     let der_U_phi = - 0.5 * kd * pn * sin (pn * phi - phase);
     der_phi_cos \<leftarrow> fdiv (- 1) (sin phi);
     let vector12 = CalculateVector atom1 atom2;
     let vector32 = CalculateVector atom3 atom2;
     let vector43 = CalculateVector atom4 atom3;
     let v_t = Cross vector12 vector32;
     let v_u = Cross vector43 vector32;
     (der_cos_tx, der_cos_ty, der_cos_tz) \<leftarrow> CalculateDerivate v_t v_u phi;
     (der_cos_ux, der_cos_uy, der_cos_uz) \<leftarrow> CalculateDerivate v_u v_t phi;
     let force_i =
       \<lparr>x = der_U_phi * der_phi_cos * (der_cos_ty * (- z vector32) + der_cos_tz * y vector32),
        y = der_U_phi * der_phi_cos * (der_cos_tz * (- x vector32) + der_cos_tx * z vector32),
        z = der_U_phi * der_phi_cos * (der_cos_tx * (- y vector32) + der_cos_ty * x vector32)\<rparr>;
     let force_j =
       \<lparr>x = der_U_phi * der_phi_cos * (der_cos_ty * (- z vector12 + z vector32) + der_cos_tz * (- y vector32 + y vector12)),
        y = der_U_phi * der_phi_cos * (der_cos_tz * (- x vector12 + x vector32) + der_cos_tx * (- z vector32 + z vector12)),
        z = der_U_phi * der_phi_cos * (der_cos_tx * (- y vector12 + y vector32) + der_cos_ty * (- x vector32 + x vector12))\<rparr>;
     let force_k =
       \<lparr>x = der_U_phi * der_phi_cos * (der_cos_ty * z vector12 - der_cos_tz * y vector12 + der_cos_uy * (z vector32 + z vector43) - der_cos_uz * (y vector32 + y vector43)),
        y = der_U_phi * der_phi_cos * (der_cos_tz * x vector12 - der_cos_tx * z vector12 + der_cos_uz * (x vector32 + x vector43) - der_cos_ux * (z vector32 + z vector43)),
        z = der_U_phi * der_phi_cos * (der_cos_tx * y vector12 - der_cos_ty * z vector12 + der_cos_ux * (y vector32 + y vector43) - der_cos_uy * (x vector32 + x vector43))\<rparr>;
     let force_l =
       \<lparr>x = der_U_phi * der_phi_cos * (der_cos_uy * (- z vector32) + der_cos_uz * y vector32),
        y = der_U_phi * der_phi_cos * (der_cos_uz * (- x vector32) + der_cos_ux * z vector32),
        z = der_U_phi * der_phi_cos * (der_cos_ux * (- y vector32) + der_cos_uy * x vector32)\<rparr>;
     Some (force_i, force_j, force_k, force_l)
   }"

section \<open>Non-bonded energies and forces (unbonded.go)\<close>

text \<open>
  \<^verbatim>\<open>math.Pow(r, 6)\<close> is the sixth power. The constant \<^verbatim>\<open>epsilon\<close>, the vacuum
  permittivity, is declared outside the sources at hand and is a parameter here.
\<close>

definition CalculateLJPotentialEnergy :: "real \<Rightarrow> real \<Rightarrow> real \<Rightarrow> real option" where
  "CalculateLJPotentialEnergy B A r = do {
     let r_6 = r ^ 6;
     let r_12 = r_6 * r_6;
     qa \<leftarrow> fdiv A r_12;
     qb \<leftarrow> fdiv B r_6;
     let LJ = qa - qb;
     if LJ < 0 then Some (- LJ) else Some LJ
   }"

definition CalculateElectricPotentialEnergy :: "real \<Rightarrow> Atom \<Rightarrow> Atom \<Rightarrow> real \<Rightarrow> real option" where
  "CalculateElectricPotentialEnergy epsilon a1 a2 r =
     (let chargeMagnitude = charge a1 * charge a2
      in if chargeMagnitude < 0.0 then fdiv (- chargeMagnitude) (4 * pi * epsilon * r)
         else fdiv chargeMagnitude (4 * pi * epsilon * r))"

definition CalculateElectricForce :: "real \<Rightarrow> Atom \<Rightarrow> Atom \<Rightarrow> real \<Rightarrow> TriTuple option" where
  "CalculateElectricForce epsilon a1 a2 r = do {
     let chargeMagnitude = charge a1 * charge a2;
     forceMagnitude \<leftarrow>
       (if chargeMagnitude > 0.0 then fdiv chargeMagnitude (4 * pi * epsilon * r * r)
        else fdiv (- chargeMagnitude) (4 * pi * epsilon * r * r));
     ux \<leftarrow> fdiv (x (position a2) - x (position a1)) r;
     uy \<leftarrow> fdiv (y (position a2) - y (position a1)) r;
     uz \<leftarrow> fdiv (z (position a2) - z (position a1)) r;
     let unitVector = \<lparr>x = ux, y = uy, z = uz\<rparr>;
     Some \<lparr>x = forceMagnitude * x unitVector,
           y = forceMagnitude * y unitVector,
           z = forceMagnitude * z unitVector\<rparr>
   }"

section \<open>Atoms behind pointers\<close>

text \<open>
  A protein holds \<^verbatim>\<open>[]*Residue\<close>, a residue \<^verbatim>\<open>[]*Atom\<close>. The neighbour list compares
  atoms by pointer and keys its map by pointer, the minimizer writes positions through
  pointers and copies a protein to protect the original, so atoms live in a store and
  are named by their address. An address outside the store is a nil pointer:
  reading through it is Go's panic, here \<open>None\<close>. Residues and proteins are never
  written to by the routines modelled and never compared by pointer; they are values.
\<close>

type_synonym addr = nat

type_synonym heap = "Atom list"

definition deref :: "heap \<Rightarrow> addr \<Rightarrow> Atom option" where
  "deref h p = (if p < length h then Some (h ! p) else None)"

definition new_Atom :: "heap \<Rightarrow> Atom \<Rightarrow> heap \<times> addr" where
  "new_Atom h a = (h @ [a], length h)"

text \<open>
  Modelled from the spec: the declarations of the structs \<^verbatim>\<open>Residue\<close>, \<^verbatim>\<open>Protein\<close> and
  \<^verbatim>\<open>VerletList\<close> are missing from the sources. The spec's data model gives a residue a
  name, a numeric id, a chain id and its atoms in order, a protein a name and its residues
  in order, and a Verlet list a cutoff, a buffer and a map from each atom, by reference,
  to the list of its neighbours; the field names are the ones the routines use.
\<close>

record Residue =
  Name :: string
  ID :: "64 word"
  ChainID :: string
  Atoms :: "addr list"

record Protein =
  Name :: string
  Residue :: "Residue list"

record VerletList =
  Neighbors :: "addr \<rightharpoonup> addr list"
  Cutoff :: real
  Buffer :: real

section \<open>The Verlet list (unbonded.go)\<close>

text \<open>
  \<^verbatim>\<open>BuildVerlet\<close> is four nested \<^verbatim>\<open>for\<close> statements; each is a recursion over the
  slice it ranges over, and the map of neighbours is handed from step to step. Reading
  \<^verbatim>\<open>v.Neighbors[atom]\<close> at a missing key gives the empty slice.
\<close>

fun scan_atoms ::
  "heap \<Rightarrow> real \<Rightarrow> addr \<Rightarrow> addr list \<Rightarrow> (addr \<rightharpoonup> addr list) \<Rightarrow> (addr \<rightharpoonup> addr list) option" where
  "scan_atoms h cutoffPlusBuffer atom [] nb = Some nb"
| "scan_atoms h cutoffPlusBuffer atom (otherAtom # rest) nb =
     (if atom = otherAtom then scan_atoms h cutoffPlusBuffer atom rest nb
      else do {
        other \<leftarrow> deref h otherAtom;
        this \<leftarrow> deref h atom;
        if sint (index this - 3) \<le> sint (index other) \<and> sint (index other) \<le> sint (index this + 3)
        then scan_atoms h cutoffPlusBuffer atom rest nb
        else
          let distance = Distance (position this) (position other)
          in if distance \<le> cutoffPlusBuffer
             then scan_atoms h cutoffPlusBuffer atom rest
                    (nb(atom \<mapsto> (case nb atom of None \<Rightarrow> [] | Some l \<Rightarrow> l) @ [otherAtom]))
             else scan_atoms h cutoffPlusBuffer atom rest nb
      })"

fun scan_residues ::
  "heap \<Rightarrow> real \<Rightarrow> addr \<Rightarrow> Residue list \<Rightarrow> (addr \<rightharpoonup> addr list) \<Rightarrow> (addr \<rightharpoonup> addr list) option" where
  "scan_residues h cutoffPlusBuffer atom [] nb = Some nb"
| "scan_residues h cutoffPlusBuffer atom (otherResidue # rest) nb = do {
     nb' \<leftarrow> scan_atoms h cutoffPlusBuffer atom (Atoms otherResidue) nb;
     scan_residues h cutoffPlusBuffer atom rest nb'
   }"

fun build_atoms ::
  "heap \<Rightarrow> real \<Rightarrow> Protein \<Rightarrow> addr list \<Rightarrow> (addr \<rightharpoonup> addr list) \<Rightarrow> (addr \<rightharpoonup> addr list) option" where
  "build_atoms h cutoffPlusBuffer protein [] nb = Some nb"
| "build_atoms h cutoffPlusBuffer protein (atom # rest) nb = do {
     nb' \<leftarrow> scan_residues h cutoffPlusBuffer atom (Residue protein) (nb(atom \<mapsto> []));
     build_atoms h cutoffPlusBuffer protein rest nb'
   }"

fun build_residues ::
  "heap \<Rightarrow> real \<Rightarrow> Protein \<Rightarrow> Residue list \<Rightarrow> (addr \<rightharpoonup> addr list) \<Rightarrow> (addr \<rightharpoonup> addr list) option" where
  "build_residues h cutoffPlusBuffer protein [] nb = Some nb"
| "build_residues h cutoffPlusBuffer protein (residue # rest) nb = do {
     nb' \<leftarrow> build_atoms h cutoffPlusBuffer protein (Atoms residue) nb;
     build_residues h cutoffPlusBuffer protein rest nb'
   }"

definition BuildVerlet :: "heap \<Rightarrow> VerletList \<Rightarrow> Protein \<Rightarrow> VerletList option" where
  "BuildVerlet h v protein = do {
     let cutoffPlusBuffer = Cutoff v + Buffer v;
     nb \<leftarrow> build_residues h cutoffPlusBuffer protein (Residue protein) Map.empty;
     Some (v\<lparr>Neighbors := nb\<rparr>)
   }"

section \<open>Copying a protein (functions.go)\<close>

text \<open>
  \<^verbatim>\<open>var newAtom Atom\<close> is the zero-valued atom; returning its address puts it in the
  store.
\<close>

definition zero_Atom :: Atom where
  "zero_Atom =
     \<lparr>index = 0,
      position = \<lparr>x = 0, y = 0, z = 0\<rparr>,
      velocity = \<lparr>x = 0, y = 0, z = 0\<rparr>,
      force = \<lparr>x = 0, y = 0, z = 0\<rparr>,
      accelerated = \<lparr>x = 0, y = 0, z = 0\<rparr>,
      mass = 0, element = [], charge = 0\<rparr>"

definition CopyAtom :: "heap \<Rightarrow> addr \<Rightarrow> (heap \<times> addr) option" where
  "CopyAtom h currAtom = do {
     curr \<leftarrow> deref h currAtom;
     let newAtom = zero_Atom;
     let newAtom = newAtom\<lparr>mass := mass curr\<rparr>;
     let newAtom = newAtom\<lparr>force := CopyTriTuple (force curr)\<rparr>;
     let newAtom = newAtom\<lparr>position := CopyTriTuple (position curr)\<rparr>;
     let newAtom = newAtom\<lparr>velocity := CopyTriTuple (velocity curr)\<rparr>;
     let newAtom = newAtom\<lparr>accelerated := CopyTriTuple (accelerated curr)\<rparr>;
     let newAtom = newAtom\<lparr>element := element curr\<rparr>;
     Some (new_Atom h newAtom)
   }"

fun CopyAtoms :: "heap \<Rightarrow> addr list \<Rightarrow> (heap \<times> addr list) option" where
  "CopyAtoms h [] = Some (h, [])"
| "CopyAtoms h (currAtom # rest) = do {
     (h1, newAtom) \<leftarrow> CopyAtom h currAtom;
     (h2, newAtoms) \<leftarrow> CopyAtoms h1 rest;
     Some (h2, newAtom # newAtoms)
   }"

definition CopyResidue :: "heap \<Rightarrow> Residue \<Rightarrow> (heap \<times> Residue) option" where
  "CopyResidue h currRes = do {
     (h', newAtoms) \<leftarrow> CopyAtoms h (Atoms currRes);
     Some (h', \<lparr>Residue.Name = Residue.Name currRes, ID = ID currRes, ChainID = ChainID currRes,
                Atoms = newAtoms\<rparr>)
   }"

fun CopyResidues :: "heap \<Rightarrow> Residue list \<Rightarrow> (heap \<times> Residue list) option" where
  "CopyResidues h [] = Some (h, [])"
| "CopyResidues h (currRes # rest) = do {
     (h1, newRes) \<leftarrow> CopyResidue h currRes;
     (h2, newResidues) \<leftarrow> CopyResidues h1 rest;
     Some (h2, newRes # newResidues)
   }"

definition CopyProtein :: "heap \<Rightarrow> Protein \<Rightarrow> (heap \<times> Protein) option" where
  "CopyProtein h currentProtein = do {
     (h', newResidues) \<leftarrow> CopyResidues h (Residue currentProtein);
     Some (h', \<lparr>Name = Protein.Name currentProtein, Residue = newResidues\<rparr>)
   }"

section \<open>The minimizer (functions.go)\<close>

definition CalculateTotalEnergy :: "heap \<Rightarrow> Protein \<Rightarrow> real" where
  "CalculateTotalEnergy h p = 1.0"

definition CalculateNetForce :: "nat \<Rightarrow> TriTuple" where
  "CalculateNetForce a = \<lparr>x = 1.0, y = 1.0, z = 1.0\<rparr>"

text \<open>
  The body of the inner loop of \<^verbatim>\<open>SteepestDescent\<close> is three assignments to the
  position of the atom \<^verbatim>\<open>protein.Residue[i].Atoms[j]\<close>, each a read and a write through
  the pointer.
\<close>

definition move_atom :: "heap \<Rightarrow> real \<Rightarrow> nat \<Rightarrow> addr \<Rightarrow> heap option" where
  "move_atom h hh j p = do {
     let force = CalculateNetForce j;
     let magn = magnitude force;
     a0 \<leftarrow> deref h p;
     dx \<leftarrow> fdiv (x force * hh) magn;
     let h1 = h[p := a0\<lparr>position := (position a0)\<lparr>x := x (position a0) + dx\<rparr>\<rparr>];
     a1 \<leftarrow> deref h1 p;
     dy \<leftarrow> fdiv (y force * hh) magn;
     let h2 = h1[p := a1\<lparr>position := (position a1)\<lparr>y := y (position a1) + dy\<rparr>\<rparr>];
     a2 \<leftarrow> deref h2 p;
     dz \<leftarrow> fdiv (z force * hh) magn;
     Some (h2[p := a2\<lparr>position := (position a2)\<lparr>z := z (position a2) + dz\<rparr>\<rparr>])
   }"

fun descend_atoms :: "heap \<Rightarrow> real \<Rightarrow> nat \<Rightarrow> addr list \<Rightarrow> heap option" where
  "descend_atoms h hh j [] = Some h"
| "descend_atoms h hh j (p # rest) = do {
     h' \<leftarrow> move_atom h hh j p;
     descend_atoms h' hh (Suc j) rest
   }"

fun descend_residues :: "heap \<Rightarrow> real \<Rightarrow> Residue list \<Rightarrow> heap option" where
  "descend_residues h hh [] = Some h"
| "descend_residues h hh (r # rest) = do {
     h' \<leftarrow> descend_atoms h hh 0 (Atoms r);
     descend_residues h' hh rest
   }"

definition SteepestDescent :: "heap \<Rightarrow> Protein \<Rightarrow> real \<Rightarrow> heap option" where
  "SteepestDescent h protein hh = descend_residues h hh (Residue protein)"

text \<open>
  \<^verbatim>\<open>CalculateTotalEnergy\<close> is a stub. The loop of \<^verbatim>\<open>PerformEnergyMinimization\<close> is
  written over the energy evaluator \<open>E\<close> it calls, so that what the loop does with the
  two energies can be stated; the routine itself is the loop at \<open>CalculateTotalEnergy\<close>.
  The state of the loop is the store, the current protein and the step size \<open>h\<close>.
\<close>

definition minimization_step ::
  "(heap \<Rightarrow> Protein \<Rightarrow> real) \<Rightarrow> heap \<times> Protein \<times> real \<Rightarrow> (heap \<times> Protein \<times> real) option" where
  "minimization_step E st =
     (case st of (h, currentProtein, hh) \<Rightarrow> do {
        let initialEnergy = E h currentProtein;
        (h1, tempProtein) \<leftarrow> CopyProtein h currentProtein;
        h2 \<leftarrow> SteepestDescent h1 tempProtein hh;
        let updatedEnergy = E h2 tempProtein;
        if updatedEnergy < initialEnergy
        then Some (h2, tempProtein, hh * 1.2)
        else Some (h2, currentProtein, hh * (0.2 * hh))
      })"

function minimization_loop ::
  "(heap \<Rightarrow> Protein \<Rightarrow> real) \<Rightarrow> int \<Rightarrow> int \<Rightarrow> heap \<times> Protein \<times> real
     \<Rightarrow> (heap \<times> Protein \<times> real) option" where
  "minimization_loop E i iteration st =
     (if i < iteration
      then do {
        st' \<leftarrow> minimization_step E st;
        minimization_loop E (i + 1) iteration st'
      }
      else Some st)"
  by pat_completeness auto
termination
  by (relation "measure (\<lambda>(E, i, iteration, st). nat (iteration - i))") auto

declare minimization_loop.simps [simp del]

definition PerformEnergyMinimization_with ::
  "(heap \<Rightarrow> Protein \<Rightarrow> real) \<Rightarrow> heap \<Rightarrow> Protein \<Rightarrow> (heap \<times> Protein) option" where
  "PerformEnergyMinimization_with E h currentProtein = do {
     let iteration = 100;
     let hh = 0.01;
     (h', currentProtein', hh') \<leftarrow> minimization_loop E 0 iteration (h, currentProtein, hh);
     Some (h', currentProtein')
   }"

definition PerformEnergyMinimization :: "heap \<Rightarrow> Protein \<Rightarrow> (heap \<times> Protein) option" where
  "PerformEnergyMinimization = PerformEnergyMinimization_with CalculateTotalEnergy"

section \<open>Notions used by the statements\<close>

text \<open>All atom pointers of a protein, in the order the routines visit them.\<close>

definition atoms_of :: "Protein \<Rightarrow> addr list" where
  "atoms_of protein = concat (map Atoms (Residue protein))"

text \<open>A protein is well formed in a store when none of its atom pointers is nil.\<close>

definition wf_protein :: "heap \<Rightarrow> Protein \<Rightarrow> bool" where
  "wf_protein h protein = list_all (\<lambda>p. p < length h) (atoms_of protein)"

text \<open>The neighbour list of one atom after a build.\<close>

definition neighbors_after_build :: "heap \<Rightarrow> VerletList \<Rightarrow> Protein \<Rightarrow> addr \<Rightarrow> addr list option" where
  "neighbors_after_build h v protein a = do {
     v' \<leftarrow> BuildVerlet h v protein;
     Neighbors v' a
   }"

text \<open>The distance of two sequence indices, as integers.\<close>

definition index_distance :: "Atom \<Rightarrow> Atom \<Rightarrow> int" where
  "index_distance a b = \<bar>sint (index b) - sint (index a)\<bar>"

text \<open>The index-exclusion test as the source computes it, on 64-bit integers.\<close>

definition index_excluded :: "Atom \<Rightarrow> Atom \<Rightarrow> bool" where
  "index_excluded this other =
     (sint (index this - 3) \<le> sint (index other) \<and> sint (index other) \<le> sint (index this + 3))"

text \<open>Iterating a step that may fail.\<close>

fun iterate_step :: "nat \<Rightarrow> ('s \<Rightarrow> 's option) \<Rightarrow> 's \<Rightarrow> 's option" where
  "iterate_step 0 f s = Some s"
| "iterate_step (Suc n) f s = do { s' \<leftarrow> f s; iterate_step n f s' }"

text \<open>What \<^verbatim>\<open>CopyAtom\<close> leaves of an atom: everything but its index and its charge.\<close>

definition without_index_and_charge :: "Atom \<Rightarrow> Atom" where
  "without_index_and_charge a = a\<lparr>index := 0, charge := 0\<rparr>"

text \<open>
  The test of the innermost loop body of \<^verbatim>\<open>BuildVerlet\<close>: atom \<open>b\<close> is appended to
  the list of atom \<open>a\<close> at threshold \<open>c\<close>.
\<close>

definition recorded_neighbor :: "heap \<Rightarrow> real \<Rightarrow> addr \<Rightarrow> addr \<Rightarrow> bool" where
  "recorded_neighbor h c a b =
     (b \<noteq> a \<and> \<not> index_excluded (h ! a) (h ! b)
      \<and> Distance (position (h ! a)) (position (h ! b)) \<le> c)"

text \<open>The indices for which neither \<open>index - 3\<close> nor \<open>index + 3\<close> wraps around.\<close>

definition index_in_range :: "Atom \<Rightarrow> bool" where
  "index_in_range a = (- (2 ^ 63) + 3 \<le> sint (index a) \<and> sint (index a) \<le> 2 ^ 63 - 4)"

text \<open>
  The residues of a copy: the same residues, their atoms at the fresh addresses from
  \<open>n\<close> on.
\<close>

fun renumber :: "nat \<Rightarrow> Residue list \<Rightarrow> Residue list" where
  "renumber n [] = []"
| "renumber n (r # rs) =
     r\<lparr>Atoms := [n ..< n + length (Atoms r)]\<rparr> # renumber (n + length (Atoms r)) rs"

text \<open>
  One descent step on an atom: the stub force \<open>(1,1,1)\<close> has length \<open>\<surd>3\<close>. A descent over
  a list of atom pointers, and the trial protein and store of one iteration.
\<close>

definition moved :: "real \<Rightarrow> Atom \<Rightarrow> Atom" where
  "moved hh a = a\<lparr>position := \<lparr>x = x (position a) + hh / sqrt 3,
                                 y = y (position a) + hh / sqrt 3,
                                 z = z (position a) + hh / sqrt 3\<rparr>\<rparr>"

definition descend :: "real \<Rightarrow> addr list \<Rightarrow> heap \<Rightarrow> heap" where
  "descend hh ps h = fold (\<lambda>p h. h[p := moved hh (h ! p)]) ps h"

definition trial_protein :: "heap \<Rightarrow> Protein \<Rightarrow> Protein" where
  "trial_protein h p = p\<lparr>Residue := renumber (length h) (Residue p)\<rparr>"

definition trial_heap :: "heap \<Rightarrow> Protein \<Rightarrow> real \<Rightarrow> heap" where
  "trial_heap h p hh =
     descend hh (atoms_of (trial_protein h p))
       (h @ map (\<lambda>q. without_index_and_charge (h ! q)) (atoms_of p))"

section \<open>Test data\<close>

text \<open>
  The tests build an atom from a zero-valued \<^verbatim>\<open>Atom\<close> by assigning its position.
\<close>

definition atom_at :: "real \<Rightarrow> real \<Rightarrow> real \<Rightarrow> Atom" where
  "atom_at px py pz = zero_Atom\<lparr>position := \<lparr>x = px, y = py, z = pz\<rparr>\<rparr>"

text \<open>Two atoms one unit apart, with indices 0 and 10, in one residue.\<close>

definition two_atom_heap :: heap where
  "two_atom_heap = [(atom_at 0 0 0)\<lparr>index := 0\<rparr>, (atom_at 1 0 0)\<lparr>index := 10\<rparr>]"

definition two_atom_protein :: Protein where
  "two_atom_protein =
     \<lparr>Name = ''P'',
      Residue = [\<lparr>Residue.Name = ''GLY'', ID = 1, ChainID = ''A'', Atoms = [0, 1]\<rparr>]\<rparr>"

text \<open>Two atoms at the same place whose indices are the two largest values of \<^verbatim>\<open>int\<close>.\<close>

definition wrap_heap :: heap where
  "wrap_heap = [(atom_at 0 0 0)\<lparr>index := 9223372036854775806\<rparr>,
                (atom_at 0 0 0)\<lparr>index := 9223372036854775807\<rparr>]"

text \<open>
  Three atoms with indices 1, 2 and 10 in two residues, the first two at the same
  place, the first with a mass, a label and a charge.
\<close>

definition three_atom_heap :: heap where
  "three_atom_heap =
     [(atom_at 0 0 0)\<lparr>index := 1, mass := 12, element := ''CA'', charge := 1 / 2\<rparr>,
      (atom_at 0 0 0)\<lparr>index := 2\<rparr>,
      (atom_at 0 0 1)\<lparr>index := 10, charge := - 1\<rparr>]"

definition three_atom_protein :: Protein where
  "three_atom_protein =
     \<lparr>Name = ''P'',
      Residue = [\<lparr>Residue.Name = ''GLY'', ID = 1, ChainID = ''A'', Atoms = [0, 1]\<rparr>,
                 \<lparr>Residue.Name = ''ALA'', ID = 2, ChainID = ''A'', Atoms = [2]\<rparr>]\<rparr>"

text \<open>An energy that falls when atoms move along the stub force.\<close>

definition falling_energy :: "heap \<Rightarrow> Protein \<Rightarrow> real" where
  "falling_energy h p = - sum_list (map (\<lambda>a. x (position (h ! a))) (atoms_of p))"

text \<open>
  The determinant of the matrix with the rows \<open>a\<close>, \<open>b\<close>, \<open>c\<close>. The cross product of \<open>a\<close>
  and \<open>b\<close> is the one vector \<open>n\<close> with \<open>n \<cdot> c = det (a, b, c)\<close> for every \<open>c\<close>.
\<close>

definition det3 :: "TriTuple \<Rightarrow> TriTuple \<Rightarrow> TriTuple \<Rightarrow> real" where
  "det3 a b c =
     x a * (y b * z c - z b * y c)
     - y a * (x b * z c - z b * x c)
     + z a * (x b * y c - y b * x c)"

text \<open>The sum of a list of vectors, to state that forces balance.\<close>

definition vsum :: "TriTuple list \<Rightarrow> TriTuple" where
  "vsum vs = \<lparr>x = sum_list (map x vs), y = sum_list (map y vs), z = sum_list (map z vs)\<rparr>"

definition zero_vector :: TriTuple where
  "zero_vector = \<lparr>x = 0, y = 0, z = 0\<rparr>"

section \<open>Properties of the vector algebra and of the bonded forces\<close>

lemma Distance_self: "Distance p p = 0"
  by (simp add: Distance_def)

lemma fdiv_zero: "fdiv a 0 = None"
  by (simp add: fdiv_def)

lemma fdiv_Some: "b \<noteq> 0 \<Longrightarrow> fdiv a b = Some (a / b)"
  by (simp add: fdiv_def)

lemma position_atom_at: "position (atom_at px py pz) = \<lparr>x = px, y = py, z = pz\<rparr>"
  by (simp add: atom_at_def)

lemma BuildNormalVector_orthogonal_left: "dot (BuildNormalVector v1 v2) v1 = 0"
  by (simp add: dot_def BuildNormalVector_def algebra_simps)

lemma BuildNormalVector_orthogonal_right: "dot (BuildNormalVector v1 v2) v2 = 0"
  by (simp add: dot_def BuildNormalVector_def algebra_simps)

lemma BuildNormalVector_magnitude:
  "(magnitude (BuildNormalVector v1 v2))\<^sup>2
     = (magnitude v1)\<^sup>2 * (magnitude v2)\<^sup>2 - (dot v1 v2)\<^sup>2"
proof -
  have nn: "0 \<le> a * a + b * b + c * c" for a b c :: real
    by simp
  show ?thesis
    unfolding magnitude_def dot_def BuildNormalVector_def
    by (simp add: nn) algebra
qed

lemma DerivateAnglePositionX_same_atom:
  "DerivateAnglePositionX atom1 atom2 atom2 theta = None"
  by (simp add: DerivateAnglePositionX_def Distance_self fdiv_zero split: Option.bind_splits)

lemma CalculateAngleForce_undefined:
  "CalculateAngleForce k theta theta_0 atom1 atom2 atom3 = None"
  by (simp add: CalculateAngleForce_def DerivateAnglePositionX_same_atom
      split: Option.bind_splits)

lemma CalculateProperDihedralsForce_net_force:
  assumes "fdiv (- 1) (sin phi) = Some c"
    and "CalculateDerivate (Cross (CalculateVector atom1 atom2) (CalculateVector atom3 atom2))
           (Cross (CalculateVector atom4 atom3) (CalculateVector atom3 atom2)) phi
         = Some (t1, t2, t3)"
    and "CalculateDerivate (Cross (CalculateVector atom4 atom3) (CalculateVector atom3 atom2))
           (Cross (CalculateVector atom1 atom2) (CalculateVector atom3 atom2)) phi
         = Some (u1, u2, u3)"
  shows "\<exists>fi fj fk fl.
           CalculateProperDihedralsForce kd phi pn phase atom1 atom2 atom3 atom4
             = Some (fi, fj, fk, fl)
           \<and> vsum [fi, fj, fk, fl] =
               \<lparr>x = - 0.5 * kd * pn * sin (pn * phi - phase) * c
                      * (u2 * z (CalculateVector atom4 atom3) - u3 * y (CalculateVector atom4 atom3)),
                y = - 0.5 * kd * pn * sin (pn * phi - phase) * c
                      * (u3 * x (CalculateVector atom4 atom3) - u1 * z (CalculateVector atom4 atom3)),
                z = - 0.5 * kd * pn * sin (pn * phi - phase) * c
                      * (t2 * (x (CalculateVector atom1 atom2) - z (CalculateVector atom1 atom2))
                         + u1 * y (CalculateVector atom4 atom3)
                         - u2 * x (CalculateVector atom4 atom3))\<rparr>"
  using assms
  by (simp add: CalculateProperDihedralsForce_def Let_def vsum_def) (simp add: field_simps)

text \<open>
  C1. The four forces of the proper-torsion routine should sum to the zero vector. They
  do not: whenever the routine has a result, the sum is what the lemma above says, the
  \<open>v_u\<close> derivative crossed with \<open>vector43\<close> and one more term in the third component.
  For the atoms at \<open>(1,1,0)\<close>, \<open>(0,0,0)\<close>, \<open>(1,0,0)\<close>, \<open>(2,0,-1)\<close>, whose
  dihedral angle the angle routine reports as 90 degrees, and \<open>kd = 2\<close>, \<open>pn = 1\<close>,
  \<open>phase = 0\<close>, \<open>phi = \<pi>/2\<close>, every quotient of the routine exists and the forces are
  \<open>(0,0,0)\<close>, \<open>(0,0,1)\<close>, \<open>(0,-1,-1)\<close>, \<open>(0,0,0)\<close>, with sum \<open>(0,-1,0)\<close>.
\<close>

theorem CalculateProperDihedralsForce_net_force_nonzero:
  "CalculateDihedralAngle (atom_at 1 1 0) (atom_at 0 0 0) (atom_at 1 0 0) (atom_at 2 0 (- 1))
     = Some 90
   \<and> CalculateProperDihedralsForce 2 (pi / 2) 1 0
        (atom_at 1 1 0) (atom_at 0 0 0) (atom_at 1 0 0) (atom_at 2 0 (- 1))
     = Some (\<lparr>x = 0, y = 0, z = 0\<rparr>, \<lparr>x = 0, y = 0, z = 1\<rparr>,
             \<lparr>x = 0, y = - 1, z = - 1\<rparr>, \<lparr>x = 0, y = 0, z = 0\<rparr>)
   \<and> vsum [\<lparr>x = 0, y = 0, z = 0\<rparr>, \<lparr>x = 0, y = 0, z = 1\<rparr>,
             \<lparr>x = 0, y = - 1, z = - 1\<rparr>, \<lparr>x = 0, y = 0, z = 0\<rparr>]
     = \<lparr>x = 0, y = - 1, z = 0\<rparr>
   \<and> \<lparr>x = 0, y = - 1, z = 0\<rparr> \<noteq> zero_vector"
proof (intro conjI)
  show "CalculateDihedralAngle (atom_at 1 1 0) (atom_at 0 0 0) (atom_at 1 0 0)
          (atom_at 2 0 (- 1)) = Some 90"
    by (simp add: CalculateDihedralAngle_def CalculateVector_def BuildNormalVector_def dot_def
        magnitude_def fdiv_def Atan2_def position_atom_at)
  show "CalculateProperDihedralsForce 2 (pi / 2) 1 0
          (atom_at 1 1 0) (atom_at 0 0 0) (atom_at 1 0 0) (atom_at 2 0 (- 1))
        = Some (\<lparr>x = 0, y = 0, z = 0\<rparr>, \<lparr>x = 0, y = 0, z = 1\<rparr>,
                \<lparr>x = 0, y = - 1, z = - 1\<rparr>, \<lparr>x = 0, y = 0, z = 0\<rparr>)"
    by (simp add: CalculateProperDihedralsForce_def CalculateDerivate_def CalculateVector_def
        Cross_def magnitude_def fdiv_def Let_def position_atom_at)
  show "vsum [\<lparr>x = 0, y = 0, z = 0\<rparr>, \<lparr>x = 0, y = 0, z = 1\<rparr>,
              \<lparr>x = 0, y = - 1, z = - 1\<rparr>, \<lparr>x = 0, y = 0, z = 0\<rparr>]
        = \<lparr>x = 0, y = - 1, z = 0\<rparr>"
    by (simp add: vsum_def)
  show "\<lparr>x = 0, y = - 1, z = 0\<rparr> \<noteq> zero_vector"
    by (simp add: zero_vector_def)
qed

lemma magnitude_zero_iff: "magnitude v = 0 \<longleftrightarrow> v = zero_vector"
proof -
  have "x v * x v + y v * y v + z v * z v = 0 \<longleftrightarrow> x v = 0 \<and> y v = 0 \<and> z v = 0"
    by (simp add: add_nonneg_eq_0_iff)
  then show ?thesis
    by (cases v) (simp add: magnitude_def zero_vector_def)
qed

lemma CalculateDerivate_None_iff:
  "CalculateDerivate v1 v2 phi = None \<longleftrightarrow> v1 = zero_vector \<or> v2 = zero_vector"
  by (auto simp: CalculateDerivate_def fdiv_def magnitude_zero_iff split: Option.bind_splits)

lemma BuildNormalVector_dot: "dot (BuildNormalVector v1 v2) w = det3 v1 v2 w"
  by (simp add: dot_def BuildNormalVector_def det3_def algebra_simps)

lemma cross_product_unique:
  assumes "\<And>w. dot n w = det3 v1 v2 w"
  shows "n = BuildNormalVector v1 v2"
proof -
  have "x n = x (BuildNormalVector v1 v2)"
    using assms [of "\<lparr>x = 1, y = 0, z = 0\<rparr>"]
    by (simp add: dot_def det3_def BuildNormalVector_def)
  moreover have "y n = y (BuildNormalVector v1 v2)"
    using assms [of "\<lparr>x = 0, y = 1, z = 0\<rparr>"]
    by (simp add: dot_def det3_def BuildNormalVector_def)
  moreover have "z n = z (BuildNormalVector v1 v2)"
    using assms [of "\<lparr>x = 0, y = 0, z = 1\<rparr>"]
    by (simp add: dot_def det3_def BuildNormalVector_def)
  ultimately show ?thesis
    by (cases n) (simp add: BuildNormalVector_def)
qed

lemma CalculateProperDihedralsForce_elementwise:
  "CalculateProperDihedralsForce kd phi pn phase atom1 atom2 atom3 atom4 =
     (let v12 = CalculateVector atom1 atom2;
          v32 = CalculateVector atom3 atom2;
          v43 = CalculateVector atom4 atom3;
          k = - 0.5 * kd * pn * sin (pn * phi - phase)
      in do {
        c \<leftarrow> fdiv (- 1) (sin phi);
        (t1, t2, t3) \<leftarrow>
          CalculateDerivate \<lparr>x = x v12 * x v32, y = y v12 * y v32, z = z v12 * z v32\<rparr>
            \<lparr>x = x v43 * x v32, y = y v43 * y v32, z = z v43 * z v32\<rparr> phi;
        (u1, u2, u3) \<leftarrow>
          CalculateDerivate \<lparr>x = x v43 * x v32, y = y v43 * y v32, z = z v43 * z v32\<rparr>
            \<lparr>x = x v12 * x v32, y = y v12 * y v32, z = z v12 * z v32\<rparr> phi;
        Some (\<lparr>x = k * c * (t2 * (- z v32) + t3 * y v32),
               y = k * c * (t3 * (- x v32) + t1 * z v32),
               z = k * c * (t1 * (- y v32) + t2 * x v32)\<rparr>,
              \<lparr>x = k * c * (t2 * (- z v12 + z v32) + t3 * (- y v32 + y v12)),
               y = k * c * (t3 * (- x v12 + x v32) + t1 * (- z v32 + z v12)),
               z = k * c * (t1 * (- y v12 + y v32) + t2 * (- x v32 + x v12))\<rparr>,
              \<lparr>x = k * c * (t2 * z v12 - t3 * y v12 + u2 * (z v32 + z v43) - u3 * (y v32 + y v43)),
               y = k * c * (t3 * x v12 - t1 * z v12 + u3 * (x v32 + x v43) - u1 * (z v32 + z v43)),
               z = k * c * (t1 * y v12 - t2 * z v12 + u1 * (y v32 + y v43) - u2 * (x v32 + x v43))\<rparr>,
              \<lparr>x = k * c * (u2 * (- z v32) + u3 * y v32),
               y = k * c * (u3 * (- x v32) + u1 * z v32),
               z = k * c * (u1 * (- y v32) + u2 * x v32)\<rparr>)
      })"
  by (simp add: CalculateProperDihedralsForce_def Cross_def Let_def)

lemma CalculateProperDihedralsForce_None_iff:
  "CalculateProperDihedralsForce kd phi pn phase atom1 atom2 atom3 atom4 = None \<longleftrightarrow>
     sin phi = 0
     \<or> Cross (CalculateVector atom1 atom2) (CalculateVector atom3 atom2) = zero_vector
     \<or> Cross (CalculateVector atom4 atom3) (CalculateVector atom3 atom2) = zero_vector"
proof -
  let ?vt = "Cross (CalculateVector atom1 atom2) (CalculateVector atom3 atom2)"
  let ?vu = "Cross (CalculateVector atom4 atom3) (CalculateVector atom3 atom2)"
  have d: "CalculateDerivate ?vt ?vu phi = None \<longleftrightarrow> ?vt = zero_vector \<or> ?vu = zero_vector"
    "CalculateDerivate ?vu ?vt phi = None \<longleftrightarrow> ?vu = zero_vector \<or> ?vt = zero_vector"
    by (rule CalculateDerivate_None_iff)+
  show ?thesis
  proof (cases "sin phi = 0")
    case True
    then show ?thesis
      by (simp add: CalculateProperDihedralsForce_def fdiv_def)
  next
    case False
    show ?thesis
    proof (cases "CalculateDerivate ?vt ?vu phi")
      case None
      with False d show ?thesis
        by (auto simp: CalculateProperDihedralsForce_def fdiv_def Let_def)
    next
      case t: (Some tt)
      show ?thesis
      proof (cases "CalculateDerivate ?vu ?vt phi")
        case None
        with False d t show ?thesis
          by (auto simp: CalculateProperDihedralsForce_def fdiv_def Let_def split: prod.splits)
      next
        case (Some uu)
        with False d t show ?thesis
          by (auto simp: CalculateProperDihedralsForce_def fdiv_def Let_def split: prod.splits)
      qed
    qed
  qed
qed

text \<open>
  C3. \<open>Cross\<close> is the element-wise product, and \<open>BuildNormalVector\<close> is the cross
  product: its inner product with any \<open>w\<close> is the determinant of the two arguments and
  \<open>w\<close>, which only the cross product does; it is orthogonal to both arguments and has
  squared length \<open>|v1|\<^sup>2 |v2|\<^sup>2 - (v1\<cdot>v2)\<^sup>2\<close>. The two differ already on the unit vectors.
  At every input the torsion-force routine is the chain rule applied to the derivatives
  at \<open>v_t\<close> and \<open>v_u\<close>, the element-wise products of \<open>vector12\<close> and of \<open>vector43\<close> with
  \<open>vector32\<close>, and it has no result exactly when \<open>sin \<phi> = 0\<close> or one of these two products is
  the zero vector. At every input the torsion-angle routine is \<open>atan2\<close> of the two inner
  products of its plane normals, which are \<open>BuildNormalVector\<close> of consecutive bond vectors.
  So on the atoms \<open>(-1,0,0)\<close>, \<open>(0,0,0)\<close>, \<open>(0,-1,0)\<close>, \<open>(0,-1,1)\<close>, whose bonds are
  perpendicular, the angle routine returns 90 degrees and the force routine has no result.
\<close>

theorem Cross_elementwise_BuildNormalVector_cross_product:
  "Cross v1 v2 = \<lparr>x = x v1 * x v2, y = y v1 * y v2, z = z v1 * z v2\<rparr>
   \<and> dot (BuildNormalVector v1 v2) w = det3 v1 v2 w
   \<and> dot (BuildNormalVector v1 v2) v1 = 0
   \<and> dot (BuildNormalVector v1 v2) v2 = 0
   \<and> (magnitude (BuildNormalVector v1 v2))\<^sup>2
        = (magnitude v1)\<^sup>2 * (magnitude v2)\<^sup>2 - (dot v1 v2)\<^sup>2
   \<and> BuildNormalVector \<lparr>x = 1, y = 0, z = 0\<rparr> \<lparr>x = 0, y = 1, z = 0\<rparr> = \<lparr>x = 0, y = 0, z = 1\<rparr>
   \<and> Cross \<lparr>x = 1, y = 0, z = 0\<rparr> \<lparr>x = 0, y = 1, z = 0\<rparr> = \<lparr>x = 0, y = 0, z = 0\<rparr>
   \<and> CalculateProperDihedralsForce kd phi pn phase atom1 atom2 atom3 atom4 =
       (let v12 = CalculateVector atom1 atom2;
            v32 = CalculateVector atom3 atom2;
            v43 = CalculateVector atom4 atom3;
            k = - 0.5 * kd * pn * sin (pn * phi - phase)
        in do {
          c \<leftarrow> fdiv (- 1) (sin phi);
          (t1, t2, t3) \<leftarrow>
            CalculateDerivate \<lparr>x = x v12 * x v32, y = y v12 * y v32, z = z v12 * z v32\<rparr>
              \<lparr>x = x v43 * x v32, y = y v43 * y v32, z = z v43 * z v32\<rparr> phi;
          (u1, u2, u3) \<leftarrow>
            CalculateDerivate \<lparr>x = x v43 * x v32, y = y v43 * y v32, z = z v43 * z v32\<rparr>
              \<lparr>x = x v12 * x v32, y = y v12 * y v32, z = z v12 * z v32\<rparr> phi;
          Some (\<lparr>x = k * c * (t2 * (- z v32) + t3 * y v32),
                 y = k * c * (t3 * (- x v32) + t1 * z v32),
                 z = k * c * (t1 * (- y v32) + t2 * x v32)\<rparr>,
                \<lparr>x = k * c * (t2 * (- z v12 + z v32) + t3 * (- y v32 + y v12)),
                 y = k * c * (t3 * (- x v12 + x v32) + t1 * (- z v32 + z v12)),
                 z = k * c * (t1 * (- y v12 + y v32) + t2 * (- x v32 + x v12))\<rparr>,
                \<lparr>x = k * c * (t2 * z v12 - t3 * y v12 + u2 * (z v32 + z v43) - u3 * (y v32 + y v43)),
                 y = k * c * (t3 * x v12 - t1 * z v12 + u3 * (x v32 + x v43) - u1 * (z v32 + z v43)),
                 z = k * c * (t1 * y v12 - t2 * z v12 + u1 * (y v32 + y v43) - u2 * (x v32 + x v43))\<rparr>,
                \<lparr>x = k * c * (u2 * (- z v32) + u3 * y v32),
                 y = k * c * (u3 * (- x v32) + u1 * z v32),
                 z = k * c * (u1 * (- y v32) + u2 * x v32)\<rparr>)
        })
   \<and> (CalculateProperDihedralsForce kd phi pn phase atom1 atom2 atom3 atom4 = None \<longleftrightarrow>
        sin phi = 0
        \<or> Cross (CalculateVector atom1 atom2) (CalculateVector atom3 atom2) = zero_vector
        \<or> Cross (CalculateVector atom4 atom3) (CalculateVector atom3 atom2) = zero_vector)
   \<and> CalculateDihedralAngle atom1 atom2 atom3 atom4 =
       (let n1 = BuildNormalVector (CalculateVector atom2 atom1) (CalculateVector atom3 atom2);
            n2 = BuildNormalVector (CalculateVector atom3 atom2) (CalculateVector atom4 atom3)
        in do {
          s \<leftarrow> fdiv (dot (BuildNormalVector n1 n2) (CalculateVector atom3 atom2))
                 (magnitude (CalculateVector atom3 atom2));
          Some (Atan2 s (dot n1 n2) * (180 / pi))
        })
   \<and> CalculateDihedralAngle (atom_at (- 1) 0 0) (atom_at 0 0 0) (atom_at 0 (- 1) 0)
         (atom_at 0 (- 1) 1) = Some 90
   \<and> CalculateProperDihedralsForce kd (pi / 2) pn phase (atom_at (- 1) 0 0) (atom_at 0 0 0)
         (atom_at 0 (- 1) 0) (atom_at 0 (- 1) 1) = None"
proof (intro conjI)
  show "Cross v1 v2 = \<lparr>x = x v1 * x v2, y = y v1 * y v2, z = z v1 * z v2\<rparr>"
    by (simp add: Cross_def)
  show "dot (BuildNormalVector v1 v2) w = det3 v1 v2 w"
    by (rule BuildNormalVector_dot)
  show "dot (BuildNormalVector v1 v2) v1 = 0"
    by (rule BuildNormalVector_orthogonal_left)
  show "dot (BuildNormalVector v1 v2) v2 = 0"
    by (rule BuildNormalVector_orthogonal_right)
  show "(magnitude (BuildNormalVector v1 v2))\<^sup>2
          = (magnitude v1)\<^sup>2 * (magnitude v2)\<^sup>2 - (dot v1 v2)\<^sup>2"
    by (rule BuildNormalVector_magnitude)
  show "BuildNormalVector \<lparr>x = 1, y = 0, z = 0\<rparr> \<lparr>x = 0, y = 1, z = 0\<rparr>
          = \<lparr>x = 0, y = 0, z = 1\<rparr>"
    by (simp add: BuildNormalVector_def)
  show "Cross \<lparr>x = 1, y = 0, z = 0\<rparr> \<lparr>x = 0, y = 1, z = 0\<rparr> = \<lparr>x = 0, y = 0, z = 0\<rparr>"
    by (simp add: Cross_def)
  show "CalculateProperDihedralsForce kd phi pn phase atom1 atom2 atom3 atom4 =
       (let v12 = CalculateVector atom1 atom2;
            v32 = CalculateVector atom3 atom2;
            v43 = CalculateVector atom4 atom3;
            k = - 0.5 * kd * pn * sin (pn * phi - phase)
        in do {
          c \<leftarrow> fdiv (- 1) (sin phi);
          (t1, t2, t3) \<leftarrow>
            CalculateDerivate \<lparr>x = x v12 * x v32, y = y v12 * y v32, z = z v12 * z v32\<rparr>
              \<lparr>x = x v43 * x v32, y = y v43 * y v32, z = z v43 * z v32\<rparr> phi;
          (u1, u2, u3) \<leftarrow>
            CalculateDerivate \<lparr>x = x v43 * x v32, y = y v43 * y v32, z = z v43 * z v32\<rparr>
              \<lparr>x = x v12 * x v32, y = y v12 * y v32, z = z v12 * z v32\<rparr> phi;
          Some (\<lparr>x = k * c * (t2 * (- z v32) + t3 * y v32),
                 y = k * c * (t3 * (- x v32) + t1 * z v32),
                 z = k * c * (t1 * (- y v32) + t2 * x v32)\<rparr>,
                \<lparr>x = k * c * (t2 * (- z v12 + z v32) + t3 * (- y v32 + y v12)),
                 y = k * c * (t3 * (- x v12 + x v32) + t1 * (- z v32 + z v12)),
                 z = k * c * (t1 * (- y v12 + y v32) + t2 * (- x v32 + x v12))\<rparr>,
                \<lparr>x = k * c * (t2 * z v12 - t3 * y v12 + u2 * (z v32 + z v43) - u3 * (y v32 + y v43)),
                 y = k * c * (t3 * x v12 - t1 * z v12 + u3 * (x v32 + x v43) - u1 * (z v32 + z v43)),
                 z = k * c * (t1 * y v12 - t2 * z v12 + u1 * (y v32 + y v43) - u2 * (x v32 + x v43))\<rparr>,
                \<lparr>x = k * c * (u2 * (- z v32) + u3 * y v32),
                 y = k * c * (u3 * (- x v32) + u1 * z v32),
                 z = k * c * (u1 * (- y v32) + u2 * x v32)\<rparr>)
        })"
    by (rule CalculateProperDihedralsForce_elementwise)
  show "CalculateProperDihedralsForce kd phi pn phase atom1 atom2 atom3 atom4 = None \<longleftrightarrow>
        sin phi = 0
        \<or> Cross (CalculateVector atom1 atom2) (CalculateVector atom3 atom2) = zero_vector
        \<or> Cross (CalculateVector atom4 atom3) (CalculateVector atom3 atom2) = zero_vector"
    by (rule CalculateProperDihedralsForce_None_iff)
  show "CalculateDihedralAngle atom1 atom2 atom3 atom4 =
       (let n1 = BuildNormalVector (CalculateVector atom2 atom1) (CalculateVector atom3 atom2);
            n2 = BuildNormalVector (CalculateVector atom3 atom2) (CalculateVector atom4 atom3)
        in do {
          s \<leftarrow> fdiv (dot (BuildNormalVector n1 n2) (CalculateVector atom3 atom2))
                 (magnitude (CalculateVector atom3 atom2));
          Some (Atan2 s (dot n1 n2) * (180 / pi))
        })"
    by (simp add: CalculateDihedralAngle_def Let_def)
  show "CalculateDihedralAngle (atom_at (- 1) 0 0) (atom_at 0 0 0) (atom_at 0 (- 1) 0)
          (atom_at 0 (- 1) 1) = Some 90"
    by (simp add: CalculateDihedralAngle_def CalculateVector_def BuildNormalVector_def dot_def
        magnitude_def fdiv_def Atan2_def position_atom_at)
  show "CalculateProperDihedralsForce kd (pi / 2) pn phase (atom_at (- 1) 0 0) (atom_at 0 0 0)
          (atom_at 0 (- 1) 0) (atom_at 0 (- 1) 1) = None"
    by (simp add: CalculateProperDihedralsForce_def CalculateDerivate_def CalculateVector_def
        Cross_def magnitude_def fdiv_def Let_def position_atom_at)
qed

lemma CalculateAngle_out_of_range:
  "CalculateAngle (atom_at 0 0 0) (atom_at 1 0 0) (atom_at 2 0 0) = None"
  by (simp add: CalculateAngle_def Acos_def CalculateVector_def dot_def Distance_def fdiv_def
      position_atom_at)

text \<open>
  C10. The three forces of the angle routine should sum to the zero vector. The routine
  asks for the derivative at the third atom with \<^verbatim>\<open>DerivateAnglePositionX(atom3, atom2, atom2, theta)\<close>,
  and that function divides by the distance between its second and third argument, here
  the distance of \<open>atom2\<close> from itself. So no input has a real result (in Go the
  components of \<open>force_k\<close> and \<open>force_j\<close> are NaN). At the atoms \<open>(1,0,0)\<close>, \<open>(0,0,0)\<close>,
  \<open>(1,1,0)\<close> the angle routine gives \<open>\<pi>/2\<close>, whose sine is not zero, and the distances
  between the atoms are not zero.
\<close>

theorem CalculateAngleForce_no_result:
  "CalculateAngle (atom_at 1 0 0) (atom_at 0 0 0) (atom_at 1 1 0) = Some (pi / 2)
   \<and> DerivateAnglePositionX (atom_at 1 0 0) (atom_at 0 0 0) (atom_at 1 1 0) (pi / 2)
       = Some (sqrt 2 / 2)
   \<and> DerivateAnglePositionX (atom_at 1 1 0) (atom_at 0 0 0) (atom_at 0 0 0) (pi / 2) = None
   \<and> CalculateAngleForce 1 (pi / 2) 0 (atom_at 1 0 0) (atom_at 0 0 0) (atom_at 1 1 0) = None"
proof (intro conjI)
  show "CalculateAngle (atom_at 1 0 0) (atom_at 0 0 0) (atom_at 1 1 0) = Some (pi / 2)"
    by (simp add: CalculateAngle_def Acos_def CalculateVector_def dot_def Distance_def fdiv_def
        position_atom_at)
  show "DerivateAnglePositionX (atom_at 1 0 0) (atom_at 0 0 0) (atom_at 1 1 0) (pi / 2)
          = Some (sqrt 2 / 2)"
    by (simp add: DerivateAnglePositionX_def Distance_def fdiv_def position_atom_at
        real_div_sqrt)
  show "DerivateAnglePositionX (atom_at 1 1 0) (atom_at 0 0 0) (atom_at 0 0 0) (pi / 2) = None"
    by (rule DerivateAnglePositionX_same_atom)
  show "CalculateAngleForce 1 (pi / 2) 0 (atom_at 1 0 0) (atom_at 0 0 0) (atom_at 1 1 0) = None"
    by (rule CalculateAngleForce_undefined)
qed

section \<open>Properties of the non-bonded formulas\<close>

lemma unit_displacement_magnitude:
  assumes "0 < Distance p1 p2"
  shows "magnitude \<lparr>x = (x p2 - x p1) / Distance p1 p2, y = (y p2 - y p1) / Distance p1 p2,
                    z = (z p2 - z p1) / Distance p1 p2\<rparr> = 1"
proof -
  let ?d = "Distance p1 p2"
  let ?s = "(x p2 - x p1) * (x p2 - x p1) + (y p2 - y p1) * (y p2 - y p1) + (z p2 - z p1) * (z p2 - z p1)"
  have d: "?d = sqrt ?s"
    by (simp add: Distance_def Let_def power2_eq_square [symmetric] power2_commute)
  have s0: "0 \<le> ?s" by simp
  have dd: "?d * ?d = ?s" unfolding d using s0 by simp
  have "(x p2 - x p1) / ?d * ((x p2 - x p1) / ?d) + (y p2 - y p1) / ?d * ((y p2 - y p1) / ?d)
        + (z p2 - z p1) / ?d * ((z p2 - z p1) / ?d) = ?s / (?d * ?d)"
    by (simp add: add_divide_distrib)
  also have "\<dots> = 1"
  proof -
    have "?d * ?d \<noteq> 0" using assms by simp
    then have "?d * ?d / (?d * ?d) = 1" by (rule divide_self)
    then show ?thesis by (simp only: dd)
  qed
  finally show ?thesis by (simp add: magnitude_def)
qed

text \<open>
  C8. For every \<open>r > 0\<close> the Lennard-Jones energy is \<open>|A/r\<^sup>1\<^sup>2 - B/r\<^sup>6|\<close>: the quotients
  exist and the sign is dropped, so the value is never negative.
\<close>

theorem CalculateLJPotentialEnergy_magnitude:
  assumes "0 < r"
  shows "CalculateLJPotentialEnergy B A r = Some \<bar>A / r ^ 12 - B / r ^ 6\<bar>
         \<and> 0 \<le> \<bar>A / r ^ 12 - B / r ^ 6\<bar>"
proof -
  have r12: "r ^ 6 * r ^ 6 = r ^ 12"
    by (simp add: power_add [symmetric])
  from assms have nz: "r ^ 6 \<noteq> 0" "r ^ 12 \<noteq> 0"
    by simp_all
  show ?thesis
    using nz by (simp add: CalculateLJPotentialEnergy_def Let_def r12 fdiv_Some abs_if)
qed

theorem CalculateLJPotentialEnergy_magnitude_witness:
  "0 < (1::real) \<and> CalculateLJPotentialEnergy 3 1 1 = Some 2"
  using CalculateLJPotentialEnergy_magnitude [of 1 3 1] by simp

text \<open>
  C9. For two charged atoms at distance \<open>r > 0\<close> (and a positive \<open>epsilon\<close>) the electric
  force is \<open>s (q1 q2) / (4 \<pi> \<epsilon> r\<^sup>2)\<close> times the displacement from the first atom to the
  second divided by \<open>r\<close>, a vector of length one; \<open>s\<close> is \<open>1\<close> when \<open>q1 q2 > 0\<close> and \<open>-1\<close>
  otherwise. The factor is positive, for like charges and for unlike ones.
\<close>

theorem CalculateElectricForce_formula:
  assumes "0 < r" and "r = Distance (position a1) (position a2)" and "0 < epsilon"
    and "charge a1 \<noteq> 0" and "charge a2 \<noteq> 0"
  shows "CalculateElectricForce epsilon a1 a2 r =
      Some \<lparr>x = (if 0 < charge a1 * charge a2 then 1 else - 1) * (charge a1 * charge a2)
                   / (4 * pi * epsilon * r\<^sup>2) * ((x (position a2) - x (position a1)) / r),
            y = (if 0 < charge a1 * charge a2 then 1 else - 1) * (charge a1 * charge a2)
                   / (4 * pi * epsilon * r\<^sup>2) * ((y (position a2) - y (position a1)) / r),
            z = (if 0 < charge a1 * charge a2 then 1 else - 1) * (charge a1 * charge a2)
                   / (4 * pi * epsilon * r\<^sup>2) * ((z (position a2) - z (position a1)) / r)\<rparr>
     \<and> magnitude \<lparr>x = (x (position a2) - x (position a1)) / r,
                    y = (y (position a2) - y (position a1)) / r,
                    z = (z (position a2) - z (position a1)) / r\<rparr> = 1
     \<and> 0 < (if 0 < charge a1 * charge a2 then 1 else - 1) * (charge a1 * charge a2)
              / (4 * pi * epsilon * r\<^sup>2)"
proof (intro conjI)
  have nz: "4 * pi * epsilon * r * r \<noteq> 0" "r \<noteq> 0"
    using assms by simp_all
  show "CalculateElectricForce epsilon a1 a2 r =
      Some \<lparr>x = (if 0 < charge a1 * charge a2 then 1 else - 1) * (charge a1 * charge a2)
                   / (4 * pi * epsilon * r\<^sup>2) * ((x (position a2) - x (position a1)) / r),
            y = (if 0 < charge a1 * charge a2 then 1 else - 1) * (charge a1 * charge a2)
                   / (4 * pi * epsilon * r\<^sup>2) * ((y (position a2) - y (position a1)) / r),
            z = (if 0 < charge a1 * charge a2 then 1 else - 1) * (charge a1 * charge a2)
                   / (4 * pi * epsilon * r\<^sup>2) * ((z (position a2) - z (position a1)) / r)\<rparr>"
    using nz by (simp add: CalculateElectricForce_def Let_def fdiv_Some power2_eq_square)
  show "magnitude \<lparr>x = (x (position a2) - x (position a1)) / r,
                    y = (y (position a2) - y (position a1)) / r,
                    z = (z (position a2) - z (position a1)) / r\<rparr> = 1"
    using unit_displacement_magnitude [of "position a1" "position a2"] assms(1,2) by simp
  have "charge a1 * charge a2 \<noteq> 0"
    using assms by simp
  then have "0 < (if 0 < charge a1 * charge a2 then 1 else - 1) * (charge a1 * charge a2)"
    by (auto simp: not_less less_le)
  moreover have "0 < 4 * pi * epsilon * r\<^sup>2"
    using assms by simp
  ultimately show "0 < (if 0 < charge a1 * charge a2 then 1 else - 1) * (charge a1 * charge a2)
                        / (4 * pi * epsilon * r\<^sup>2)"
    by (rule divide_pos_pos)
qed

theorem CalculateElectricForce_formula_witness:
  "(0::real) < 1
   \<and> 1 = Distance (position (three_atom_heap ! 0)) (position (three_atom_heap ! 2))
   \<and> charge (three_atom_heap ! 0) \<noteq> 0 \<and> charge (three_atom_heap ! 2) \<noteq> 0
   \<and> CalculateElectricForce 1 (three_atom_heap ! 0) (three_atom_heap ! 2) 1
       = Some \<lparr>x = 0, y = 0, z = 1 / (8 * pi)\<rparr>"
  using CalculateElectricForce_formula [of 1 "three_atom_heap ! 0" "three_atom_heap ! 2" 1]
  by (simp add: three_atom_heap_def atom_at_def zero_Atom_def Distance_def)

section \<open>Properties of the Verlet list\<close>

lemma scan_atoms_filter:
  assumes "a < length h" and "list_all (\<lambda>p. p < length h) others" and "nb a = Some l"
  shows "scan_atoms h c a others nb = Some (nb(a \<mapsto> l @ filter (recorded_neighbor h c a) others))"
  using assms
proof (induction others arbitrary: nb l)
  case Nil
  then have "nb(a \<mapsto> l) = nb" by (simp add: fun_upd_idem)
  then show ?case by simp
next
  case (Cons b others)
  from Cons.prems have b: "b < length h" and rest: "list_all (\<lambda>p. p < length h) others"
    by simp_all
  show ?case
  proof (cases "recorded_neighbor h c a b")
    case True
    have step: "scan_atoms h c a others (nb(a \<mapsto> l @ [b]))
          = Some ((nb(a \<mapsto> l @ [b]))(a \<mapsto> (l @ [b]) @ filter (recorded_neighbor h c a) others))"
      by (rule Cons.IH) (simp_all add: Cons.prems(1) rest)
    have upd: "(nb(a \<mapsto> l @ [b]))(a \<mapsto> (l @ [b]) @ filter (recorded_neighbor h c a) others)
          = nb(a \<mapsto> l @ filter (recorded_neighbor h c a) (b # others))"
      using True by simp
    from True b Cons.prems(1,3) have "scan_atoms h c a (b # others) nb
          = scan_atoms h c a others (nb(a \<mapsto> l @ [b]))"
      by (auto simp: deref_def recorded_neighbor_def index_excluded_def Let_def)
    then show ?thesis by (simp only: step upd)
  next
    case False
    have step: "scan_atoms h c a others nb = Some (nb(a \<mapsto> l @ filter (recorded_neighbor h c a) others))"
      by (rule Cons.IH) (simp_all add: Cons.prems(1,3) rest)
    have upd: "filter (recorded_neighbor h c a) (b # others) = filter (recorded_neighbor h c a) others"
      using False by simp
    from False b Cons.prems(1) have "scan_atoms h c a (b # others) nb = scan_atoms h c a others nb"
      by (auto simp: deref_def recorded_neighbor_def index_excluded_def Let_def)
    then show ?thesis by (simp only: step upd)
  qed
qed

lemma scan_residues_filter:
  assumes "a < length h" and "list_all (\<lambda>p. p < length h) (concat (map Atoms rs))" and "nb a = Some l"
  shows "scan_residues h c a rs nb = Some (nb(a \<mapsto> l @ filter (recorded_neighbor h c a) (concat (map Atoms rs))))"
  using assms
proof (induction rs arbitrary: nb l)
  case Nil
  then have "nb(a \<mapsto> l) = nb" by (simp add: fun_upd_idem)
  then show ?case by simp
next
  case (Cons r rs)
  from Cons.prems have r: "list_all (\<lambda>p. p < length h) (Atoms r)"
    and rest: "list_all (\<lambda>p. p < length h) (concat (map Atoms rs))"
    by simp_all
  have 1: "scan_atoms h c a (Atoms r) nb = Some (nb(a \<mapsto> l @ filter (recorded_neighbor h c a) (Atoms r)))"
    using Cons.prems(1) r Cons.prems(3) by (rule scan_atoms_filter)
  have 2: "scan_residues h c a rs (nb(a \<mapsto> l @ filter (recorded_neighbor h c a) (Atoms r)))
        = Some ((nb(a \<mapsto> l @ filter (recorded_neighbor h c a) (Atoms r)))
             (a \<mapsto> (l @ filter (recorded_neighbor h c a) (Atoms r)) @ filter (recorded_neighbor h c a) (concat (map Atoms rs))))"
    by (rule Cons.IH) (simp_all add: Cons.prems(1) rest)
  have upd: "(nb(a \<mapsto> l @ filter (recorded_neighbor h c a) (Atoms r)))
             (a \<mapsto> (l @ filter (recorded_neighbor h c a) (Atoms r)) @ filter (recorded_neighbor h c a) (concat (map Atoms rs)))
        = nb(a \<mapsto> l @ filter (recorded_neighbor h c a) (concat (map Atoms (r # rs))))"
    by simp
  have "scan_residues h c a (r # rs) nb
         = scan_residues h c a rs (nb(a \<mapsto> l @ filter (recorded_neighbor h c a) (Atoms r)))"
    by (simp add: 1)
  then show ?case by (simp only: 2 upd)
qed

lemma build_atoms_map:
  assumes "list_all (\<lambda>p. p < length h) ps" and "wf_protein h protein"
  shows "build_atoms h c protein ps nb =
     Some (\<lambda>a. if a \<in> set ps then Some (filter (recorded_neighbor h c a) (atoms_of protein)) else nb a)"
  using assms
proof (induction ps arbitrary: nb)
  case Nil
  then show ?case by simp
next
  case (Cons p ps)
  let ?nb = "nb(p \<mapsto> filter (recorded_neighbor h c p) (atoms_of protein))"
  have "scan_residues h c p (Residue protein) (nb(p \<mapsto> [])) =
      Some ((nb(p \<mapsto> []))(p \<mapsto> [] @ filter (recorded_neighbor h c p) (concat (map Atoms (Residue protein)))))"
    using Cons.prems by (intro scan_residues_filter) (simp_all add: wf_protein_def atoms_of_def)
  then have 1: "scan_residues h c p (Residue protein) (nb(p \<mapsto> [])) = Some ?nb"
    by (simp add: atoms_of_def)
  from Cons.prems have "list_all (\<lambda>p. p < length h) ps" by simp
  from Cons.IH [of ?nb, OF this Cons.prems(2)]
  have 2: "build_atoms h c protein ps ?nb =
     Some (\<lambda>a. if a \<in> set ps then Some (filter (recorded_neighbor h c a) (atoms_of protein)) else ?nb a)" .
  have "(\<lambda>a. if a \<in> set ps then Some (filter (recorded_neighbor h c a) (atoms_of protein)) else ?nb a)
      = (\<lambda>a. if a \<in> set (p # ps) then Some (filter (recorded_neighbor h c a) (atoms_of protein)) else nb a)"
    by (rule ext) simp
  with 1 2 show ?case by simp
qed

lemma build_residues_map:
  assumes "list_all (\<lambda>p. p < length h) (concat (map Atoms rs))" and "wf_protein h protein"
  shows "build_residues h c protein rs nb =
     Some (\<lambda>a. if a \<in> set (concat (map Atoms rs)) then Some (filter (recorded_neighbor h c a) (atoms_of protein)) else nb a)"
  using assms
proof (induction rs arbitrary: nb)
  case Nil
  then show ?case by simp
next
  case (Cons r rs)
  let ?f = "\<lambda>a. Some (filter (recorded_neighbor h c a) (atoms_of protein))"
  let ?nb = "\<lambda>a. if a \<in> set (Atoms r) then ?f a else nb a"
  from Cons.prems have r: "list_all (\<lambda>p. p < length h) (Atoms r)"
    and rest: "list_all (\<lambda>p. p < length h) (concat (map Atoms rs))"
    by simp_all
  have 1: "build_atoms h c protein (Atoms r) nb = Some ?nb"
    using r Cons.prems(2) by (rule build_atoms_map)
  from Cons.IH [of ?nb, OF rest Cons.prems(2)]
  have 2: "build_residues h c protein rs ?nb =
      Some (\<lambda>a. if a \<in> set (concat (map Atoms rs)) then ?f a else ?nb a)" .
  have "(\<lambda>a. if a \<in> set (concat (map Atoms rs)) then ?f a else ?nb a)
      = (\<lambda>a. if a \<in> set (concat (map Atoms (r # rs))) then ?f a else nb a)"
    by (rule ext) simp
  with 1 2 show ?case by simp
qed

lemma BuildVerlet_filter:
  assumes "wf_protein h protein"
  shows "BuildVerlet h v protein =
     Some (v\<lparr>Neighbors := \<lambda>a. if a \<in> set (atoms_of protein)
                 then Some (filter (recorded_neighbor h (Cutoff v + Buffer v) a) (atoms_of protein)) else None\<rparr>)"
proof -
  from assms have "list_all (\<lambda>p. p < length h) (concat (map Atoms (Residue protein)))"
    by (simp add: wf_protein_def atoms_of_def)
  from build_residues_map [OF this assms, of "Cutoff v + Buffer v" Map.empty]
  show ?thesis by (simp add: BuildVerlet_def atoms_of_def)
qed

lemma sint_sub3:
  fixes w :: "64 word"
  assumes "- (2 ^ 63) + 3 \<le> sint w"
  shows "sint (w - 3) = sint w - 3"
proof -
  have "sint w < 2 ^ 63" using sint_lt [of w] by simp
  with assms show ?thesis
    by (simp add: sint_word_ariths signed_take_bit_int_eq_self)
qed

lemma sint_add3:
  fixes w :: "64 word"
  assumes "sint w \<le> 2 ^ 63 - 4"
  shows "sint (w + 3) = sint w + 3"
proof -
  have "- (2 ^ 63) \<le> sint w" using sint_ge [of w] by simp
  with assms show ?thesis
    by (simp add: sint_word_ariths signed_take_bit_int_eq_self)
qed

lemma index_excluded_iff:
  assumes "- (2 ^ 63) + 3 \<le> sint (index a)" and "sint (index a) \<le> 2 ^ 63 - 4"
  shows "index_excluded a b \<longleftrightarrow> index_distance a b \<le> 3"
  using assms by (auto simp: index_excluded_def index_distance_def sint_sub3 sint_add3)

lemma neighbors_after_build_filter:
  assumes "wf_protein h protein"
  shows "neighbors_after_build h v protein a =
     (if a \<in> set (atoms_of protein)
      then Some (filter (recorded_neighbor h (Cutoff v + Buffer v) a) (atoms_of protein))
      else None)"
  by (simp add: neighbors_after_build_def BuildVerlet_filter [OF assms])

text \<open>
  C2 as stated fails: with cutoff 0 and buffer 2, the two atoms one unit apart with
  indices 0 and 10 are neighbours of each other; with buffer 0 they are not.
\<close>

theorem BuildVerlet_cutoff_zero_depends_on_buffer:
  "neighbors_after_build two_atom_heap \<lparr>Neighbors = Map.empty, Cutoff = 0, Buffer = 2\<rparr>
      two_atom_protein 0 = Some [1]
   \<and> neighbors_after_build two_atom_heap \<lparr>Neighbors = Map.empty, Cutoff = 0, Buffer = 0\<rparr>
      two_atom_protein 0 = Some []"
  by (simp add: neighbors_after_build_def BuildVerlet_def two_atom_heap_def two_atom_protein_def
      deref_def atom_at_def zero_Atom_def Distance_def)

text \<open>
  C2, amended. The threshold is cutoff + buffer. With cutoff 0 a build succeeds on
  every well-formed protein and gives every atom of the protein the list of exactly those
  atoms that pass the index-exclusion rule and lie within distance \<open>\<le> buffer\<close> of it, in
  the order of the protein; with a negative buffer every list is empty.
\<close>

theorem BuildVerlet_cutoff_zero:
  assumes "wf_protein h protein" and "Cutoff v = 0"
  shows "\<exists>v'. BuildVerlet h v protein = Some v'
           \<and> Neighbors v' =
               (\<lambda>a. if a \<in> set (atoms_of protein)
                    then Some (filter (recorded_neighbor h (Buffer v) a) (atoms_of protein))
                    else None)
           \<and> (Buffer v < 0 \<longrightarrow> (\<forall>a nbs. Neighbors v' a = Some nbs \<longrightarrow> nbs = []))"
proof -
  let ?nb = "\<lambda>a. if a \<in> set (atoms_of protein)
                  then Some (filter (recorded_neighbor h (Buffer v) a) (atoms_of protein))
                  else None"
  have "Cutoff v + Buffer v = Buffer v"
    using assms(2) by simp
  with BuildVerlet_filter [OF assms(1), of v]
  have build: "BuildVerlet h v protein = Some (v\<lparr>Neighbors := ?nb\<rparr>)"
    by (simp only:)
  have "nbs = []" if "Buffer v < 0" and "?nb a = Some nbs" for a nbs
  proof -
    have "\<not> recorded_neighbor h (Buffer v) a b" for b
    proof -
      have "0 \<le> Distance (position (h ! a)) (position (h ! b))"
        by (simp add: Distance_def Let_def)
      with that(1) show ?thesis
        by (simp add: recorded_neighbor_def)
    qed
    with that(2) show ?thesis
      by (simp split: if_splits)
  qed
  with build show ?thesis
    by auto
qed

theorem BuildVerlet_cutoff_zero_witness:
  "wf_protein two_atom_heap two_atom_protein
   \<and> Cutoff \<lparr>Neighbors = Map.empty, Cutoff = 0, Buffer = 2\<rparr> = 0
   \<and> (\<exists>v'. BuildVerlet two_atom_heap \<lparr>Neighbors = Map.empty, Cutoff = 0, Buffer = 2\<rparr>
              two_atom_protein = Some v'
         \<and> Neighbors v' 0 = Some [1] \<and> Neighbors v' 1 = Some [0] \<and> Neighbors v' 2 = None)"
proof -
  have wf: "wf_protein two_atom_heap two_atom_protein"
    by (simp add: wf_protein_def atoms_of_def two_atom_protein_def two_atom_heap_def)
  have atoms: "atoms_of two_atom_protein = [0, 1]"
    by (simp add: atoms_of_def two_atom_protein_def)
  have rec: "recorded_neighbor two_atom_heap 2 0 (Suc 0)"
    "recorded_neighbor two_atom_heap 2 (Suc 0) 0"
    "\<not> recorded_neighbor two_atom_heap 2 0 0"
    "\<not> recorded_neighbor two_atom_heap 2 (Suc 0) (Suc 0)"
    by (simp_all add: recorded_neighbor_def index_excluded_def two_atom_heap_def atom_at_def
        zero_Atom_def Distance_def)
  from BuildVerlet_cutoff_zero [OF wf, of "\<lparr>Neighbors = Map.empty, Cutoff = 0, Buffer = 2\<rparr>"]
  obtain v' where
    "BuildVerlet two_atom_heap \<lparr>Neighbors = Map.empty, Cutoff = 0, Buffer = 2\<rparr>
       two_atom_protein = Some v'"
    and "Neighbors v' =
           (\<lambda>a. if a \<in> set (atoms_of two_atom_protein)
                then Some (filter (recorded_neighbor two_atom_heap 2 a) (atoms_of two_atom_protein))
                else None)"
    by (auto cong: if_cong)
  with wf show ?thesis
    by (simp add: atoms rec)
qed

text \<open>
  C4 as stated fails where \<open>index + 3\<close> wraps around: of two atoms at the same place
  with the indices \<open>2\<^sup>6\<^sup>3 - 2\<close> and \<open>2\<^sup>6\<^sup>3 - 1\<close>, which differ by one, the second is a neighbour
  of the first.
\<close>

theorem BuildVerlet_index_wraparound:
  "neighbors_after_build wrap_heap \<lparr>Neighbors = Map.empty, Cutoff = 1, Buffer = 0\<rparr>
      two_atom_protein 0 = Some [1]
   \<and> index_distance (wrap_heap ! 0) (wrap_heap ! 1) = 1"
  by (simp add: neighbors_after_build_def BuildVerlet_def wrap_heap_def two_atom_protein_def
      deref_def atom_at_def zero_Atom_def Distance_def index_distance_def)

text \<open>
  C4, amended. A build succeeds on every well-formed protein; afterwards no atom is in
  its own list, and the list of an atom whose index lies between \<open>-2\<^sup>6\<^sup>3 + 3\<close> and
  \<open>2\<^sup>6\<^sup>3 - 4\<close> holds no atom whose index differs from its own by 3 or fewer, whatever the
  distances and the threshold.
\<close>

theorem BuildVerlet_excludes_self_and_near_indices:
  assumes "wf_protein h protein"
  shows "\<exists>v'. BuildVerlet h v protein = Some v'
           \<and> (\<forall>a nbs. Neighbors v' a = Some nbs \<longrightarrow>
                 a \<notin> set nbs
                 \<and> (index_in_range (h ! a) \<longrightarrow>
                      (\<forall>b \<in> set nbs. 3 < index_distance (h ! a) (h ! b))))"
proof -
  let ?c = "Cutoff v + Buffer v"
  let ?nb = "\<lambda>a. if a \<in> set (atoms_of protein)
                  then Some (filter (recorded_neighbor h ?c a) (atoms_of protein))
                  else None"
  have build: "BuildVerlet h v protein = Some (v\<lparr>Neighbors := ?nb\<rparr>)"
    by (rule BuildVerlet_filter [OF assms])
  have "a \<notin> set nbs \<and> (index_in_range (h ! a) \<longrightarrow>
          (\<forall>b \<in> set nbs. 3 < index_distance (h ! a) (h ! b)))"
    if "?nb a = Some nbs" for a nbs
  proof -
    from that have nbs: "nbs = filter (recorded_neighbor h ?c a) (atoms_of protein)"
      by (simp split: if_splits)
    have "a \<notin> set nbs"
      by (simp add: nbs recorded_neighbor_def)
    moreover have "3 < index_distance (h ! a) (h ! b)"
      if "index_in_range (h ! a)" and "b \<in> set nbs" for b
    proof -
      from that(2) have "\<not> index_excluded (h ! a) (h ! b)"
        by (simp add: nbs recorded_neighbor_def)
      moreover from that(1) have "- (2 ^ 63) + 3 \<le> sint (index (h ! a))"
        and "sint (index (h ! a)) \<le> 2 ^ 63 - 4"
        by (simp_all only: index_in_range_def)
      then have "index_excluded (h ! a) (h ! b) \<longleftrightarrow> index_distance (h ! a) (h ! b) \<le> 3"
        by (rule index_excluded_iff)
      ultimately show ?thesis
        by simp
    qed
    ultimately show ?thesis
      by blast
  qed
  note key = this
  show ?thesis
  proof (rule exI [of _ "v\<lparr>Neighbors := ?nb\<rparr>"], rule conjI)
    show "BuildVerlet h v protein = Some (v\<lparr>Neighbors := ?nb\<rparr>)"
      by (rule build)
    show "\<forall>a nbs. Neighbors (v\<lparr>Neighbors := ?nb\<rparr>) a = Some nbs \<longrightarrow>
            a \<notin> set nbs
            \<and> (index_in_range (h ! a) \<longrightarrow>
                 (\<forall>b \<in> set nbs. 3 < index_distance (h ! a) (h ! b)))"
    proof (intro allI impI)
      fix a nbs
      assume "Neighbors (v\<lparr>Neighbors := ?nb\<rparr>) a = Some nbs"
      then have "?nb a = Some nbs"
        by simp
      then show "a \<notin> set nbs
            \<and> (index_in_range (h ! a) \<longrightarrow>
                 (\<forall>b \<in> set nbs. 3 < index_distance (h ! a) (h ! b)))"
        by (rule key)
    qed
  qed
qed

theorem BuildVerlet_excludes_self_and_near_indices_witness:
  "wf_protein three_atom_heap three_atom_protein
   \<and> neighbors_after_build three_atom_heap \<lparr>Neighbors = Map.empty, Cutoff = 1, Buffer = 0\<rparr>
       three_atom_protein 0 = Some [2]
   \<and> index_in_range (three_atom_heap ! 0)
   \<and> 3 < index_distance (three_atom_heap ! 0) (three_atom_heap ! 2)
   \<and> index_distance (three_atom_heap ! 0) (three_atom_heap ! 1) = 1
   \<and> Distance (position (three_atom_heap ! 0)) (position (three_atom_heap ! 1)) = 0"
proof -
  let ?v = "\<lparr>Neighbors = Map.empty, Cutoff = 1, Buffer = 0\<rparr>"
  have wf: "wf_protein three_atom_heap three_atom_protein"
    by (simp add: wf_protein_def atoms_of_def three_atom_protein_def three_atom_heap_def)
  have nb: "neighbors_after_build three_atom_heap ?v three_atom_protein 0 = Some [2]"
    by (simp add: neighbors_after_build_def BuildVerlet_def three_atom_heap_def
        three_atom_protein_def deref_def atom_at_def zero_Atom_def Distance_def)
  have range: "index_in_range (three_atom_heap ! 0)"
    by (simp add: index_in_range_def three_atom_heap_def atom_at_def zero_Atom_def)
  from BuildVerlet_excludes_self_and_near_indices [OF wf, of ?v]
  obtain v' where build: "BuildVerlet three_atom_heap ?v three_atom_protein = Some v'"
    and excl: "\<And>a nbs. Neighbors v' a = Some nbs \<Longrightarrow>
                 a \<notin> set nbs
                 \<and> (index_in_range (three_atom_heap ! a) \<longrightarrow>
                      (\<forall>b \<in> set nbs. 3 < index_distance (three_atom_heap ! a) (three_atom_heap ! b)))"
    by blast
  from nb build have "Neighbors v' 0 = Some [2]"
    by (simp add: neighbors_after_build_def)
  from excl [OF this] range
  have far: "3 < index_distance (three_atom_heap ! 0) (three_atom_heap ! 2)"
    by simp
  have "index_distance (three_atom_heap ! 0) (three_atom_heap ! 1) = 1"
    "Distance (position (three_atom_heap ! 0)) (position (three_atom_heap ! 1)) = 0"
    by (simp_all add: index_distance_def Distance_def three_atom_heap_def atom_at_def
        zero_Atom_def)
  with wf nb range far show ?thesis
    by simp
qed

section \<open>Properties of the copy\<close>

lemma valid_mono:
  "list_all (\<lambda>q. q < n) ps \<Longrightarrow> n \<le> m \<Longrightarrow> list_all (\<lambda>q. q < (m::nat)) ps"
  by (induction ps) auto

lemma CopyTriTuple_id: "CopyTriTuple t = t"
  by (simp add: CopyTriTuple_def)

lemma CopyAtom_Some:
  assumes "p < length h"
  shows "CopyAtom h p = Some (h @ [without_index_and_charge (h ! p)], length h)"
proof -
  have "zero_Atom\<lparr>mass := mass a, force := force a, position := position a,
          velocity := velocity a, accelerated := accelerated a, element := element a\<rparr>
        = without_index_and_charge a" for a
    by (cases a) (simp add: zero_Atom_def without_index_and_charge_def)
  with assms show ?thesis
    by (simp add: CopyAtom_def deref_def new_Atom_def CopyTriTuple_id)
qed

lemma CopyAtoms_Some:
  assumes "list_all (\<lambda>p. p < length h) ps"
  shows "CopyAtoms h ps = Some (h @ map (\<lambda>p. without_index_and_charge (h ! p)) ps,
                                [length h ..< length h + length ps])"
  using assms
proof (induction ps arbitrary: h)
  case Nil
  then show ?case by simp
next
  case (Cons p ps)
  let ?h1 = "h @ [without_index_and_charge (h ! p)]"
  from Cons.prems have p: "p < length h" and ps: "list_all (\<lambda>q. q < length h) ps"
    by simp_all
  from ps have ps1: "list_all (\<lambda>q. q < length ?h1) ps"
    by (rule valid_mono) simp
  have same: "map (\<lambda>q. without_index_and_charge (?h1 ! q)) ps
            = map (\<lambda>q. without_index_and_charge (h ! q)) ps"
    using ps by (simp add: list_all_iff nth_append)
  have 1: "CopyAtom h p = Some (?h1, length h)"
    using p by (rule CopyAtom_Some)
  have 2: "CopyAtoms ?h1 ps = Some (?h1 @ map (\<lambda>q. without_index_and_charge (?h1 ! q)) ps,
                                [length ?h1 ..< length ?h1 + length ps])"
    using ps1 by (rule Cons.IH)
  have range: "length h # [length ?h1 ..< length ?h1 + length ps]
               = [length h ..< length h + length (p # ps)]"
    by (simp add: upt_conv_Cons del: upt_Suc)
  have "CopyAtoms h (p # ps)
          = Some (?h1 @ map (\<lambda>q. without_index_and_charge (?h1 ! q)) ps,
                  length h # [length ?h1 ..< length ?h1 + length ps])"
    by (simp add: 1 2)
  then show ?case
    by (simp only: same range) simp
qed

lemma CopyResidue_Some:
  assumes "list_all (\<lambda>p. p < length h) (Atoms r)"
  shows "CopyResidue h r = Some (h @ map (\<lambda>p. without_index_and_charge (h ! p)) (Atoms r),
                                r\<lparr>Atoms := [length h ..< length h + length (Atoms r)]\<rparr>)"
  using assms by (simp add: CopyResidue_def CopyAtoms_Some)

lemma CopyResidues_Some:
  assumes "list_all (\<lambda>p. p < length h) (concat (map Atoms rs))"
  shows "CopyResidues h rs = Some (h @ map (\<lambda>p. without_index_and_charge (h ! p)) (concat (map Atoms rs)),
                                renumber (length h) rs)"
  using assms
proof (induction rs arbitrary: h)
  case Nil
  then show ?case by simp
next
  case (Cons r rs)
  let ?h1 = "h @ map (\<lambda>p. without_index_and_charge (h ! p)) (Atoms r)"
  from Cons.prems have r: "list_all (\<lambda>p. p < length h) (Atoms r)"
    and rs: "list_all (\<lambda>p. p < length h) (concat (map Atoms rs))"
    by simp_all
  from rs have rs1: "list_all (\<lambda>q. q < length ?h1) (concat (map Atoms rs))"
    by (rule valid_mono) simp
  have same: "map (\<lambda>q. without_index_and_charge (?h1 ! q)) (concat (map Atoms rs))
            = map (\<lambda>q. without_index_and_charge (h ! q)) (concat (map Atoms rs))"
    using rs by (simp add: list_all_iff nth_append)
  have 1: "CopyResidue h r = Some (?h1, r\<lparr>Atoms := [length h ..< length h + length (Atoms r)]\<rparr>)"
    using r by (rule CopyResidue_Some)
  have 2: "CopyResidues ?h1 rs = Some (?h1 @ map (\<lambda>q. without_index_and_charge (?h1 ! q)) (concat (map Atoms rs)),
                                renumber (length ?h1) rs)"
    using rs1 by (rule Cons.IH)
  show ?case
    by (simp add: 1 2 same)
qed

lemma CopyProtein_Some:
  assumes "wf_protein h p"
  shows "CopyProtein h p = Some (h @ map (\<lambda>q. without_index_and_charge (h ! q)) (atoms_of p),
                                p\<lparr>Residue := renumber (length h) (Residue p)\<rparr>)"
  using assms by (simp add: CopyProtein_def CopyResidues_Some wf_protein_def atoms_of_def)

lemma atoms_renumber: "concat (map Atoms (renumber n rs)) = [n ..< n + length (concat (map Atoms rs))]"
proof (induction rs arbitrary: n)
  case Nil
  then show ?case by simp
next
  case (Cons r rs)
  have "[n ..< n + length (Atoms r)] @ [n + length (Atoms r) ..< n + length (Atoms r) + length (concat (map Atoms rs))]
       = [n ..< n + length (Atoms r) + length (concat (map Atoms rs))]"
    by (simp add: upt_add_eq_append [symmetric])
  then show ?case by (simp add: Cons.IH add.assoc)
qed

lemma renumber_shape:
  "map Residue.Name (renumber n rs) = map Residue.Name rs"
  "map ID (renumber n rs) = map ID rs"
  "map ChainID (renumber n rs) = map ChainID rs"
  "map (length \<circ> Atoms) (renumber n rs) = map (length \<circ> Atoms) rs"
  by (induction rs arbitrary: n) simp_all

lemma without_index_and_charge_fields:
  "mass (without_index_and_charge a) = mass a"
  "force (without_index_and_charge a) = force a"
  "position (without_index_and_charge a) = position a"
  "velocity (without_index_and_charge a) = velocity a"
  "accelerated (without_index_and_charge a) = accelerated a"
  "element (without_index_and_charge a) = element a"
  "index (without_index_and_charge a) = 0"
  "charge (without_index_and_charge a) = 0"
  by (simp_all add: without_index_and_charge_def)

text \<open>
  C7. The copy of a well-formed protein has the name, the residues (name, id, chain,
  number of atoms) and, atom by atom, the mass, force, position, velocity, acceleration
  and label of the original, in fresh atoms: the store the original lives in is
  untouched. The index and the charge of every atom of the copy are 0.
\<close>

theorem CopyProtein_drops_index_and_charge:
  assumes "wf_protein h p"
  shows "\<exists>h' p'. CopyProtein h p = Some (h', p')
           \<and> take (length h) h' = h
           \<and> Protein.Name p' = Protein.Name p
           \<and> map Residue.Name (Residue p') = map Residue.Name (Residue p)
           \<and> map ID (Residue p') = map ID (Residue p)
           \<and> map ChainID (Residue p') = map ChainID (Residue p)
           \<and> map (length \<circ> Atoms) (Residue p') = map (length \<circ> Atoms) (Residue p)
           \<and> map (\<lambda>a. mass (h' ! a)) (atoms_of p') = map (\<lambda>a. mass (h ! a)) (atoms_of p)
           \<and> map (\<lambda>a. force (h' ! a)) (atoms_of p') = map (\<lambda>a. force (h ! a)) (atoms_of p)
           \<and> map (\<lambda>a. position (h' ! a)) (atoms_of p') = map (\<lambda>a. position (h ! a)) (atoms_of p)
           \<and> map (\<lambda>a. velocity (h' ! a)) (atoms_of p') = map (\<lambda>a. velocity (h ! a)) (atoms_of p)
           \<and> map (\<lambda>a. accelerated (h' ! a)) (atoms_of p')
               = map (\<lambda>a. accelerated (h ! a)) (atoms_of p)
           \<and> map (\<lambda>a. element (h' ! a)) (atoms_of p') = map (\<lambda>a. element (h ! a)) (atoms_of p)
           \<and> list_all (\<lambda>a. index (h' ! a) = 0 \<and> charge (h' ! a) = 0) (atoms_of p')"
proof -
  let ?new = "map (\<lambda>q. without_index_and_charge (h ! q)) (atoms_of p)"
  let ?h = "h @ ?new"
  let ?p = "p\<lparr>Residue := renumber (length h) (Residue p)\<rparr>"
  have copy: "CopyProtein h p = Some (?h, ?p)"
    by (rule CopyProtein_Some [OF assms])
  have atoms: "atoms_of ?p = [length h ..< length h + length (atoms_of p)]"
    by (simp add: atoms_of_def atoms_renumber)
  have cells: "map (\<lambda>a. ?h ! a) (atoms_of ?p) = ?new"
  proof (rule nth_equalityI)
    show "length (map (\<lambda>a. ?h ! a) (atoms_of ?p)) = length ?new"
      by (simp add: atoms)
    show "map (\<lambda>a. ?h ! a) (atoms_of ?p) ! i = ?new ! i"
      if "i < length (map (\<lambda>a. ?h ! a) (atoms_of ?p))" for i
      using that by (simp add: atoms nth_append)
  qed
  have field: "map (\<lambda>a. f (?h ! a)) (atoms_of ?p)
                 = map (\<lambda>a. f (without_index_and_charge (h ! a))) (atoms_of p)" for f :: "Atom \<Rightarrow> 'b"
  proof -
    have "map (\<lambda>a. f (?h ! a)) (atoms_of ?p) = map f (map (\<lambda>a. ?h ! a) (atoms_of ?p))"
      by (simp add: comp_def)
    also have "\<dots> = map f ?new"
      by (simp only: cells)
    finally show ?thesis
      by (simp add: comp_def)
  qed
  have "list_all (\<lambda>b. index b = 0 \<and> charge b = 0) (map (\<lambda>a. ?h ! a) (atoms_of ?p))"
    by (simp only: cells) (simp add: list_all_iff without_index_and_charge_fields)
  then have zero: "list_all (\<lambda>a. index (?h ! a) = 0 \<and> charge (?h ! a) = 0) (atoms_of ?p)"
    by (simp add: list.pred_map comp_def)
  have shape: "Protein.Name ?p = Protein.Name p"
    "map Residue.Name (Residue ?p) = map Residue.Name (Residue p)"
    "map ID (Residue ?p) = map ID (Residue p)"
    "map ChainID (Residue ?p) = map ChainID (Residue p)"
    "map (length \<circ> Atoms) (Residue ?p) = map (length \<circ> Atoms) (Residue p)"
    by (simp_all add: renumber_shape)
  have "take (length h) ?h = h"
    by simp
  with copy shape zero
    field [of mass] field [of force] field [of position] field [of velocity]
    field [of accelerated] field [of element]
  show ?thesis
    by (simp only: without_index_and_charge_fields) blast
qed

theorem CopyProtein_drops_index_and_charge_witness:
  "wf_protein three_atom_heap three_atom_protein
   \<and> index (three_atom_heap ! 0) = 1 \<and> charge (three_atom_heap ! 0) = 1 / 2
   \<and> (\<exists>h' p'. CopyProtein three_atom_heap three_atom_protein = Some (h', p')
         \<and> atoms_of p' = [3, 4, 5]
         \<and> map (\<lambda>a. mass (h' ! a)) (atoms_of p') = [12, 0, 0]
         \<and> map (\<lambda>a. element (h' ! a)) (atoms_of p') = [''CA'', [], []]
         \<and> list_all (\<lambda>a. index (h' ! a) = 0 \<and> charge (h' ! a) = 0) (atoms_of p'))"
proof -
  have wf: "wf_protein three_atom_heap three_atom_protein"
    by (simp add: wf_protein_def atoms_of_def three_atom_protein_def three_atom_heap_def)
  have len: "length three_atom_heap = 3"
    by (simp add: three_atom_heap_def)
  have orig: "index (three_atom_heap ! 0) = 1" "charge (three_atom_heap ! 0) = 1 / 2"
    by (simp_all add: three_atom_heap_def)
  have fields: "map (\<lambda>a. mass (three_atom_heap ! a)) (atoms_of three_atom_protein) = [12, 0, 0]"
    "map (\<lambda>a. element (three_atom_heap ! a)) (atoms_of three_atom_protein) = [''CA'', [], []]"
    by (simp_all add: three_atom_heap_def three_atom_protein_def atoms_of_def atom_at_def
        zero_Atom_def)
  from CopyProtein_drops_index_and_charge [OF wf]
  obtain h' p' where c: "CopyProtein three_atom_heap three_atom_protein = Some (h', p')"
    and m: "map (\<lambda>a. mass (h' ! a)) (atoms_of p')
           = map (\<lambda>a. mass (three_atom_heap ! a)) (atoms_of three_atom_protein)"
    and e: "map (\<lambda>a. element (h' ! a)) (atoms_of p')
           = map (\<lambda>a. element (three_atom_heap ! a)) (atoms_of three_atom_protein)"
    and zero: "list_all (\<lambda>a. index (h' ! a) = 0 \<and> charge (h' ! a) = 0) (atoms_of p')"
    by blast
  from c CopyProtein_Some [OF wf]
  have "p' = three_atom_protein\<lparr>Residue := renumber 3 (Residue three_atom_protein)\<rparr>"
    by (simp add: len)
  then have new: "atoms_of p' = [3, 4, 5]"
    by (simp add: atoms_of_def three_atom_protein_def)
  have "CopyProtein three_atom_heap three_atom_protein = Some (h', p')
         \<and> atoms_of p' = [3, 4, 5]
         \<and> map (\<lambda>a. mass (h' ! a)) (atoms_of p') = [12, 0, 0]
         \<and> map (\<lambda>a. element (h' ! a)) (atoms_of p') = [''CA'', [], []]
         \<and> list_all (\<lambda>a. index (h' ! a) = 0 \<and> charge (h' ! a) = 0) (atoms_of p')"
    using c new m e zero by (simp only: fields)
  then have "\<exists>h' p'. CopyProtein three_atom_heap three_atom_protein = Some (h', p')
         \<and> atoms_of p' = [3, 4, 5]
         \<and> map (\<lambda>a. mass (h' ! a)) (atoms_of p') = [12, 0, 0]
         \<and> map (\<lambda>a. element (h' ! a)) (atoms_of p') = [''CA'', [], []]
         \<and> list_all (\<lambda>a. index (h' ! a) = 0 \<and> charge (h' ! a) = 0) (atoms_of p')"
    by (intro exI)
  with wf orig show ?thesis
    by (intro conjI)
qed

section \<open>Properties of the minimizer\<close>

lemma magnitude_CalculateNetForce: "magnitude (CalculateNetForce j) = sqrt 3"
  by (simp add: magnitude_def CalculateNetForce_def)

lemma move_atom_Some:
  assumes "p < length h"
  shows "move_atom h hh j p = Some (h[p := moved hh (h ! p)])"
proof -
  have q: "fdiv hh (sqrt 3) = Some (hh / sqrt 3)"
    by (simp add: fdiv_def)
  have f: "x (CalculateNetForce j) = 1" "y (CalculateNetForce j) = 1" "z (CalculateNetForce j) = 1"
    by (simp_all add: CalculateNetForce_def)
  have pos: "(position a)\<lparr>x := x (position a) + d, y := y (position a) + d, z := z (position a) + d\<rparr>
        = \<lparr>x = x (position a) + d, y = y (position a) + d, z = z (position a) + d\<rparr>" for a d
    by (cases "position a") simp
  from assms show ?thesis
    by (simp add: move_atom_def magnitude_CalculateNetForce Let_def deref_def q f moved_def pos)
qed

lemma descend_length: "length (descend hh ps h) = length h"
  unfolding descend_def by (induction ps arbitrary: h) simp_all

lemma descend_take:
  "list_all (\<lambda>p. n \<le> p) ps \<Longrightarrow> take n (descend hh ps h) = take n h"
  unfolding descend_def by (induction ps arbitrary: h) (simp_all add: take_update_cancel)

lemma descend_append: "descend hh (ps @ qs) h = descend hh qs (descend hh ps h)"
  by (simp add: descend_def)

lemma descend_atoms_Some:
  assumes "list_all (\<lambda>p. p < length h) ps"
  shows "descend_atoms h hh j ps = Some (descend hh ps h)"
  using assms
proof (induction ps arbitrary: h j)
  case Nil
  then show ?case by (simp add: descend_def)
next
  case (Cons p ps)
  from Cons.prems have p: "p < length h" and ps: "list_all (\<lambda>q. q < length (h[p := moved hh (h ! p)])) ps"
    by simp_all
  have "descend_atoms (h[p := moved hh (h ! p)]) hh (Suc j) ps
          = Some (descend hh ps (h[p := moved hh (h ! p)]))"
    using ps by (rule Cons.IH)
  then show ?case by (simp add: move_atom_Some [OF p] descend_def)
qed

lemma descend_residues_Some:
  assumes "list_all (\<lambda>p. p < length h) (concat (map Atoms rs))"
  shows "descend_residues h hh rs = Some (descend hh (concat (map Atoms rs)) h)"
  using assms
proof (induction rs arbitrary: h)
  case Nil
  then show ?case by (simp add: descend_def)
next
  case (Cons r rs)
  from Cons.prems have r: "list_all (\<lambda>p. p < length h) (Atoms r)"
    and rs: "list_all (\<lambda>p. p < length (descend hh (Atoms r) h)) (concat (map Atoms rs))"
    by (simp_all add: descend_length)
  have "descend_residues (descend hh (Atoms r) h) hh rs
          = Some (descend hh (concat (map Atoms rs)) (descend hh (Atoms r) h))"
    using rs by (rule Cons.IH)
  then show ?case by (simp add: descend_atoms_Some [OF r] descend_append)
qed

lemma SteepestDescent_Some:
  assumes "wf_protein h p"
  shows "SteepestDescent h p hh = Some (descend hh (atoms_of p) h)"
  using assms by (simp add: SteepestDescent_def descend_residues_Some wf_protein_def atoms_of_def)



lemma atoms_of_trial: "atoms_of (trial_protein h p) = [length h ..< length h + length (atoms_of p)]"
  by (simp add: trial_protein_def atoms_of_def atoms_renumber)

lemma length_trial_heap: "length (trial_heap h p hh) = length h + length (atoms_of p)"
  by (simp add: trial_heap_def descend_length)

lemma take_trial_heap: "take (length h) (trial_heap h p hh) = h"
proof -
  have "list_all (\<lambda>q. length h \<le> q) (atoms_of (trial_protein h p))"
    by (simp add: atoms_of_trial list_all_iff)
  then show ?thesis by (simp add: trial_heap_def descend_take)
qed

lemma wf_trial: "wf_protein (trial_heap h p hh) (trial_protein h p)"
  by (simp add: wf_protein_def atoms_of_trial length_trial_heap list_all_iff)

lemma wf_after_trial: "wf_protein h p \<Longrightarrow> wf_protein (trial_heap h p hh) p"
  unfolding wf_protein_def by (erule valid_mono) (simp add: length_trial_heap)

lemma trial_Some:
  assumes "wf_protein h p"
  shows "CopyProtein h p = Some (h @ map (\<lambda>q. without_index_and_charge (h ! q)) (atoms_of p), trial_protein h p)"
    and "SteepestDescent (h @ map (\<lambda>q. without_index_and_charge (h ! q)) (atoms_of p)) (trial_protein h p) hh
           = Some (trial_heap h p hh)"
proof -
  show "CopyProtein h p = Some (h @ map (\<lambda>q. without_index_and_charge (h ! q)) (atoms_of p), trial_protein h p)"
    using assms by (simp add: CopyProtein_Some trial_protein_def)
  have "wf_protein (h @ map (\<lambda>q. without_index_and_charge (h ! q)) (atoms_of p)) (trial_protein h p)"
    by (simp add: wf_protein_def atoms_of_trial list_all_iff)
  then show "SteepestDescent (h @ map (\<lambda>q. without_index_and_charge (h ! q)) (atoms_of p)) (trial_protein h p) hh
           = Some (trial_heap h p hh)"
    by (simp add: SteepestDescent_Some trial_heap_def)
qed

lemma minimization_step_Some:
  assumes "wf_protein h p"
  shows "minimization_step E (h, p, hh) =
     Some (trial_heap h p hh,
           if E (trial_heap h p hh) (trial_protein h p) < E h p then trial_protein h p else p,
           if E (trial_heap h p hh) (trial_protein h p) < E h p then hh * 1.2 else hh * (0.2 * hh))"
  by (simp add: minimization_step_def trial_Some [OF assms] Let_def)

lemma minimization_loop_iterate:
  "minimization_loop E i n st = iterate_step (nat (n - i)) (minimization_step E) st"
proof (induction E i n st rule: minimization_loop.induct)
  case (1 E i n st)
  show ?case
  proof (cases "i < n")
    case True
    then have suc: "nat (n - i) = Suc (nat (n - (i + 1)))" by simp
    show ?thesis
    proof (cases "minimization_step E st")
      case None
      with True show ?thesis by (simp add: minimization_loop.simps [of E i n st] suc)
    next
      case (Some st')
      with True "1.IH" [OF True Some] show ?thesis
        by (simp add: minimization_loop.simps [of E i n st] suc)
    qed
  next
    case False
    then show ?thesis by (simp add: minimization_loop.simps [of E i n st])
  qed
qed

lemma iterate_total:
  assumes "wf_protein h p"
  shows "\<exists>h' p' hh'. iterate_step n (minimization_step E) (h, p, hh) = Some (h', p', hh') \<and> wf_protein h' p'"
  using assms
proof (induction n arbitrary: h p hh)
  case 0
  then show ?case by simp
next
  case (Suc n)
  let ?h = "trial_heap h p hh"
  let ?p = "if E ?h (trial_protein h p) < E h p then trial_protein h p else p"
  have "wf_protein ?h ?p" using Suc.prems by (simp add: wf_trial wf_after_trial)
  from Suc.IH [OF this] show ?case
    by (simp add: minimization_step_Some [OF Suc.prems])
qed

lemma iterate_stub:
  assumes "wf_protein h p" and "length h0 \<le> length h" and "take (length h0) h = h0"
  shows "\<exists>h' hh'. iterate_step n (minimization_step CalculateTotalEnergy) (h, p, hh) = Some (h', p, hh')
            \<and> take (length h0) h' = h0"
  using assms
proof (induction n arbitrary: h hh)
  case 0
  then show ?case by simp
next
  case (Suc n)
  let ?h = "trial_heap h p hh"
  have 1: "wf_protein ?h p" using Suc.prems(1) by (rule wf_after_trial)
  have 2: "length h0 \<le> length ?h" using Suc.prems(2) by (simp add: length_trial_heap)
  have "take (length h0) ?h = take (length h0) (take (length h) ?h)"
    using Suc.prems(2) by (simp add: min_def)
  then have 3: "take (length h0) ?h = h0"
    by (simp only: take_trial_heap Suc.prems(3))
  from Suc.IH [OF 1 2 3] show ?case
    by (simp add: minimization_step_Some [OF Suc.prems(1)] CalculateTotalEnergy_def)
qed

lemma deref_prefix:
  assumes "take (length h) h' = h" and "a < length h"
  shows "deref h' a = deref h a"
proof -
  have "length (take (length h) h') = length h"
    by (simp only: assms(1))
  then have len: "length h \<le> length h'"
    by simp
  have "h' ! a = take (length h) h' ! a"
    using assms(2) by simp
  with assms(2) len show ?thesis
    by (simp add: deref_def assms(1))
qed

lemma atoms_read_as_before:
  assumes "take (length h) h' = h" and "wf_protein h p"
  shows "map (deref h') (atoms_of p) = map (deref h) (atoms_of p)"
  using assms(2) deref_prefix [OF assms(1)]
  by (simp add: wf_protein_def list_all_iff)

lemma iterate_keeps_store:
  assumes "wf_protein h p" and "length h0 \<le> length h" and "take (length h0) h = h0"
  shows "\<exists>h' p' hh'. iterate_step n (minimization_step E) (h, p, hh) = Some (h', p', hh')
            \<and> wf_protein h' p' \<and> take (length h0) h' = h0"
  using assms
proof (induction n arbitrary: h p hh)
  case 0
  then show ?case by simp
next
  case (Suc n)
  let ?h = "trial_heap h p hh"
  let ?p = "if E ?h (trial_protein h p) < E h p then trial_protein h p else p"
  have 1: "wf_protein ?h ?p"
    using Suc.prems(1) by (simp add: wf_trial wf_after_trial)
  have 2: "length h0 \<le> length ?h"
    using Suc.prems(2) by (simp add: length_trial_heap)
  have "take (length h0) ?h = take (length h0) (take (length h) ?h)"
    using Suc.prems(2) by (simp add: min_def)
  then have 3: "take (length h0) ?h = h0"
    by (simp only: take_trial_heap Suc.prems(3))
  from Suc.IH [OF 1 2 3] show ?case
    by (simp add: minimization_step_Some [OF Suc.prems(1)])
qed

lemma PerformEnergyMinimization_with_iterate:
  "PerformEnergyMinimization_with E h p =
     map_option (\<lambda>st. (fst st, fst (snd st)))
       (iterate_step 100 (minimization_step E) (h, p, 1 / 100))"
proof -
  have "minimization_loop E 0 100 (h, p, 1 / 100)
          = iterate_step 100 (minimization_step E) (h, p, 1 / 100)"
    by (simp add: minimization_loop_iterate)
  then show ?thesis
    by (cases "iterate_step 100 (minimization_step E) (h, p, 1 / 100)")
      (auto simp: PerformEnergyMinimization_with_def Let_def)
qed

text \<open>
  C5. The stub energy is 1 for every protein, so no trial energy is below a current
  energy. On a well-formed protein the minimizer returns, its result is the protein it
  was given, and the store it was given is a prefix of the final store: every atom of
  the protein reads as before, its position included.
\<close>

theorem PerformEnergyMinimization_returns_input:
  assumes "wf_protein h p"
  shows "CalculateTotalEnergy h1 p1 = 1
         \<and> \<not> CalculateTotalEnergy h2 p2 < CalculateTotalEnergy h1 p1
         \<and> (\<exists>h'. PerformEnergyMinimization h p = Some (h', p)
               \<and> take (length h) h' = h
               \<and> map (deref h') (atoms_of p) = map (deref h) (atoms_of p))"
proof -
  from iterate_stub [OF assms, of h 100 "1 / 100"]
  obtain h' hh' where
    it: "iterate_step 100 (minimization_step CalculateTotalEnergy) (h, p, 1 / 100)
           = Some (h', p, hh')"
    and pre: "take (length h) h' = h"
    by auto
  have res: "PerformEnergyMinimization h p = Some (h', p)"
    by (simp add: PerformEnergyMinimization_def PerformEnergyMinimization_with_iterate it)
  have len: "length h \<le> length h'"
  proof -
    have "length (take (length h) h') = length h"
      by (simp only: pre)
    then show ?thesis
      by simp
  qed
  have "deref h' a = deref h a" if "a < length h" for a
  proof -
    have "h' ! a = take (length h) h' ! a"
      using that by simp
    with that len show ?thesis
      by (simp add: deref_def pre)
  qed
  then have "map (deref h') (atoms_of p) = map (deref h) (atoms_of p)"
    using assms by (simp add: wf_protein_def list_all_iff)
  with res pre show ?thesis
    by (simp add: CalculateTotalEnergy_def)
qed

theorem PerformEnergyMinimization_returns_input_witness:
  "wf_protein three_atom_heap three_atom_protein
   \<and> (\<exists>h'. PerformEnergyMinimization three_atom_heap three_atom_protein
              = Some (h', three_atom_protein)
         \<and> map (deref h') [0, 1, 2] = map Some three_atom_heap)"
proof -
  have wf: "wf_protein three_atom_heap three_atom_protein"
    by (simp add: wf_protein_def atoms_of_def three_atom_protein_def three_atom_heap_def)
  have atoms: "atoms_of three_atom_protein = [0, 1, 2]"
    by (simp add: atoms_of_def three_atom_protein_def)
  have cells: "map (deref three_atom_heap) [0, 1, 2] = map Some three_atom_heap"
    by (simp add: deref_def three_atom_heap_def)
  from PerformEnergyMinimization_returns_input [OF wf, of three_atom_heap three_atom_protein
      three_atom_heap three_atom_protein]
  obtain h' where
    "PerformEnergyMinimization three_atom_heap three_atom_protein = Some (h', three_atom_protein)"
    and "map (deref h') (atoms_of three_atom_protein)
           = map (deref three_atom_heap) (atoms_of three_atom_protein)"
    by blast
  then have "PerformEnergyMinimization three_atom_heap three_atom_protein
               = Some (h', three_atom_protein)
             \<and> map (deref h') [0, 1, 2] = map Some three_atom_heap"
    by (simp only: atoms cells)
  with wf show ?thesis
    by blast
qed

text \<open>
  C6. The routine is 100 rounds of one step from the step size 0.01. On a well-formed
  current protein a step copies it, descends the copy, and compares the energy of the
  trial with the energy of the current protein: if the trial's is strictly lower, the
  trial becomes current and the step size is multiplied by 1.2; if not, the current
  protein stays and the step size \<open>h\<close> becomes \<open>0.2 h\<^sup>2\<close>. Either way the store before
  the step is a prefix of the store after it, so the atoms of the current protein read as
  before: the descent writes to the atoms of the copy only. The new current protein is
  well formed again, so all 100 rounds run, and the store the routine was given is a
  prefix of the store it leaves.
\<close>

theorem PerformEnergyMinimization_steps:
  assumes "wf_protein h0 p0" and "wf_protein h cur"
  shows "PerformEnergyMinimization = PerformEnergyMinimization_with CalculateTotalEnergy
         \<and> PerformEnergyMinimization_with E h0 p0 =
             map_option (\<lambda>st. (fst st, fst (snd st)))
               (iterate_step 100 (minimization_step E) (h0, p0, 1 / 100))
         \<and> (\<exists>r. PerformEnergyMinimization_with E h0 p0 = Some r)
         \<and> (\<exists>h1 tmp h2. CopyProtein h cur = Some (h1, tmp)
               \<and> SteepestDescent h1 tmp hh = Some h2
               \<and> minimization_step E (h, cur, hh) =
                   Some (h2,
                         if E h2 tmp < E h cur then tmp else cur,
                         if E h2 tmp < E h cur then 1.2 * hh else 0.2 * hh\<^sup>2)
               \<and> wf_protein h2 (if E h2 tmp < E h cur then tmp else cur)
               \<and> take (length h) h2 = h
               \<and> map (deref h2) (atoms_of cur) = map (deref h) (atoms_of cur))
         \<and> (\<exists>h' p'. PerformEnergyMinimization_with E h0 p0 = Some (h', p')
               \<and> wf_protein h' p'
               \<and> take (length h0) h' = h0
               \<and> map (deref h') (atoms_of p0) = map (deref h0) (atoms_of p0))"
proof (intro conjI)
  show "PerformEnergyMinimization = PerformEnergyMinimization_with CalculateTotalEnergy"
    by (simp add: PerformEnergyMinimization_def)
  show "PerformEnergyMinimization_with E h0 p0 =
          map_option (\<lambda>st. (fst st, fst (snd st)))
            (iterate_step 100 (minimization_step E) (h0, p0, 1 / 100))"
    by (rule PerformEnergyMinimization_with_iterate)
  from iterate_total [OF assms(1), of 100 E "1 / 100"]
  show "\<exists>r. PerformEnergyMinimization_with E h0 p0 = Some r"
    by (auto simp: PerformEnergyMinimization_with_iterate)
  let ?h1 = "h @ map (\<lambda>q. without_index_and_charge (h ! q)) (atoms_of cur)"
  let ?tmp = "trial_protein h cur"
  let ?h2 = "trial_heap h cur hh"
  have "CopyProtein h cur = Some (?h1, ?tmp)"
    and "SteepestDescent ?h1 ?tmp hh = Some ?h2"
    by (rule trial_Some [OF assms(2)])+
  moreover have "minimization_step E (h, cur, hh) =
      Some (?h2, if E ?h2 ?tmp < E h cur then ?tmp else cur,
            if E ?h2 ?tmp < E h cur then 1.2 * hh else 0.2 * hh\<^sup>2)"
    by (simp add: minimization_step_Some [OF assms(2)] power2_eq_square)
  moreover have "wf_protein ?h2 (if E ?h2 ?tmp < E h cur then ?tmp else cur)"
    using assms(2) by (simp add: wf_trial wf_after_trial)
  moreover have keep: "take (length h) ?h2 = h"
    by (rule take_trial_heap)
  moreover have "map (deref ?h2) (atoms_of cur) = map (deref h) (atoms_of cur)"
    using keep assms(2) by (rule atoms_read_as_before)
  ultimately show "\<exists>h1 tmp h2. CopyProtein h cur = Some (h1, tmp)
               \<and> SteepestDescent h1 tmp hh = Some h2
               \<and> minimization_step E (h, cur, hh) =
                   Some (h2,
                         if E h2 tmp < E h cur then tmp else cur,
                         if E h2 tmp < E h cur then 1.2 * hh else 0.2 * hh\<^sup>2)
               \<and> wf_protein h2 (if E h2 tmp < E h cur then tmp else cur)
               \<and> take (length h) h2 = h
               \<and> map (deref h2) (atoms_of cur) = map (deref h) (atoms_of cur)"
    by blast
  from iterate_keeps_store [OF assms(1), of h0 100 E "1 / 100"]
  obtain h' p' hh' where
    it: "iterate_step 100 (minimization_step E) (h0, p0, 1 / 100) = Some (h', p', hh')"
    and wf': "wf_protein h' p'" and pre: "take (length h0) h' = h0"
    by auto
  have "PerformEnergyMinimization_with E h0 p0 = Some (h', p')"
    by (simp add: PerformEnergyMinimization_with_iterate it)
  moreover have "map (deref h') (atoms_of p0) = map (deref h0) (atoms_of p0)"
    using pre assms(1) by (rule atoms_read_as_before)
  ultimately show "\<exists>h' p'. PerformEnergyMinimization_with E h0 p0 = Some (h', p')
               \<and> wf_protein h' p'
               \<and> take (length h0) h' = h0
               \<and> map (deref h') (atoms_of p0) = map (deref h0) (atoms_of p0)"
    using wf' pre by blast
qed

theorem PerformEnergyMinimization_steps_witness:
  "wf_protein three_atom_heap three_atom_protein
   \<and> (\<exists>r. PerformEnergyMinimization_with falling_energy three_atom_heap three_atom_protein
             = Some r)
   \<and> (\<exists>h2 tmp. falling_energy h2 tmp < falling_energy three_atom_heap three_atom_protein
         \<and> minimization_step falling_energy (three_atom_heap, three_atom_protein, 1 / 100)
             = Some (h2, tmp, 3 / 250)
         \<and> take 3 h2 = three_atom_heap)
   \<and> (\<exists>h2. minimization_step CalculateTotalEnergy (three_atom_heap, three_atom_protein, 1 / 100)
             = Some (h2, three_atom_protein, 1 / 50000)
         \<and> take 3 h2 = three_atom_heap)"
proof -
  let ?H = three_atom_heap and ?P = three_atom_protein
  have wf: "wf_protein ?H ?P"
    by (simp add: wf_protein_def atoms_of_def three_atom_protein_def three_atom_heap_def)
  have len: "length ?H = 3"
    by (simp add: three_atom_heap_def)
  have atoms: "atoms_of ?P = [0, 1, 2]"
    by (simp add: atoms_of_def three_atom_protein_def)
  have trial_atoms: "atoms_of (trial_protein ?H ?P) = [3, 4, 5]"
    by (simp add: atoms_of_trial len atoms)
  have e0: "falling_energy ?H ?P = 0"
    by (simp add: falling_energy_def atoms three_atom_heap_def atom_at_def zero_Atom_def)
  have e1: "falling_energy (trial_heap ?H ?P (1 / 100)) (trial_protein ?H ?P)
              = - (3 / (100 * sqrt 3))"
    by (simp only: falling_energy_def trial_heap_def trial_atoms atoms)
      (simp add: descend_def moved_def three_atom_heap_def without_index_and_charge_def
        atom_at_def zero_Atom_def)
  have lower: "falling_energy (trial_heap ?H ?P (1 / 100)) (trial_protein ?H ?P)
                 < falling_energy ?H ?P"
    by (simp add: e0 e1)
  have copy: "CopyProtein ?H ?P
        = Some (?H @ map (\<lambda>q. without_index_and_charge (?H ! q)) (atoms_of ?P), trial_protein ?H ?P)"
    and desc: "SteepestDescent (?H @ map (\<lambda>q. without_index_and_charge (?H ! q)) (atoms_of ?P))
                 (trial_protein ?H ?P) (1 / 100) = Some (trial_heap ?H ?P (1 / 100))"
    by (rule trial_Some [OF wf])+
  from PerformEnergyMinimization_steps [OF wf wf, of falling_energy "1 / 100"]
  obtain h1 tmp h2 where total: "\<exists>r. PerformEnergyMinimization_with falling_energy ?H ?P = Some r"
    and c: "CopyProtein ?H ?P = Some (h1, tmp)"
    and d: "SteepestDescent h1 tmp (1 / 100) = Some h2"
    and step: "minimization_step falling_energy (?H, ?P, 1 / 100) =
                 Some (h2, if falling_energy h2 tmp < falling_energy ?H ?P then tmp else ?P,
                       if falling_energy h2 tmp < falling_energy ?H ?P
                       then 1.2 * (1 / 100) else 0.2 * (1 / 100)\<^sup>2)"
    and kept: "take (length ?H) h2 = ?H"
    by blast
  from c copy have tmp: "tmp = trial_protein ?H ?P"
    and "h1 = ?H @ map (\<lambda>q. without_index_and_charge (?H ! q)) (atoms_of ?P)"
    by simp_all
  with d desc have h2: "h2 = trial_heap ?H ?P (1 / 100)"
    by simp
  from lower have low: "falling_energy h2 tmp < falling_energy ?H ?P"
    by (simp only: tmp h2)
  with step have acc: "minimization_step falling_energy (?H, ?P, 1 / 100) = Some (h2, tmp, 3 / 250)"
    by simp
  from kept have kept3: "take 3 h2 = ?H"
    by (simp only: len)
  from PerformEnergyMinimization_steps [OF wf wf, of CalculateTotalEnergy "1 / 100"]
  obtain k2 where "minimization_step CalculateTotalEnergy (?H, ?P, 1 / 100)
                     = Some (k2, ?P, 1 / 50000)"
    and "take (length ?H) k2 = ?H"
    by (auto simp: CalculateTotalEnergy_def power2_eq_square)
  then have rej: "minimization_step CalculateTotalEnergy (?H, ?P, 1 / 100)
                     = Some (k2, ?P, 1 / 50000) \<and> take 3 k2 = ?H"
    by (simp only: len)
  from low acc kept3 have "\<exists>h2 tmp. falling_energy h2 tmp < falling_energy ?H ?P
         \<and> minimization_step falling_energy (?H, ?P, 1 / 100) = Some (h2, tmp, 3 / 250)
         \<and> take 3 h2 = ?H"
    by blast
  moreover from rej have "\<exists>h2. minimization_step CalculateTotalEnergy (?H, ?P, 1 / 100)
             = Some (h2, ?P, 1 / 50000) \<and> take 3 h2 = ?H"
    by blast
  ultimately show ?thesis
    using wf total by blast
qed

end
